theory Spec2Isabelle
  imports Main
begin

section \<open>Data model of the authentication core\<close>

text \<open>
  The relational store is a record of tables; each table is the list of its rows in
  storage order. \<open>SELECT ... LIMIT 1\<close> is \<open>find\<close> (the first row that matches),
  \<open>UPDATE ... WHERE\<close> is a \<open>map\<close> over the rows, \<open>INSERT\<close> appends, \<open>DELETE\<close> filters.
  Timestamps are milliseconds since the epoch; a nullable column is an \<open>option\<close>.
\<close>

type_synonym instant = nat

datatype role = RoleUser | RoleAdmin

record user_row =
  u_id :: string
  u_full_name :: string
  u_email :: string
  u_phone :: "string option"
  u_password_hash :: "string option"
  u_role :: role
  u_status :: string
  u_mfa_enabled :: bool
  u_mfa_secret_enc :: "string option"
  u_email_verified_at :: "instant option"

record session_row =
  s_id :: string
  s_user_id :: string
  s_refresh_hash :: string
  s_user_agent :: "string option"
  s_ip :: "string option"
  s_remember :: bool
  s_expires_at :: instant
  s_revoked_at :: "instant option"
  s_replaced_by :: "string option"

record trusted_device_row =
  d_id :: string
  d_user_id :: string
  d_token_hash :: string
  d_fingerprint :: "string option"
  d_user_agent :: "string option"
  d_ip :: "string option"
  d_created_at :: instant
  d_last_used_at :: "instant option"
  d_expires_at :: instant
  d_revoked_at :: "instant option"

record mfa_login_challenge_row =
  ml_id :: string
  ml_user_id :: string
  ml_remember :: bool
  ml_user_agent :: "string option"
  ml_ip :: "string option"
  ml_expires_at :: instant
  ml_consumed_at :: "instant option"

record mfa_challenge_row =
  mc_id :: string
  mc_user_id :: string
  mc_secret_enc :: string
  mc_expires_at :: instant
  mc_consumed_at :: "instant option"

record backup_code_row =
  bc_id :: nat
  bc_user_id :: string
  bc_code_hash :: string
  bc_used_at :: "instant option"

record password_reset_row =
  pr_id :: nat
  pr_user_id :: string
  pr_token_hash :: string
  pr_expires_at :: instant
  pr_used_at :: "instant option"

record db =
  users :: "user_row list"
  sessions :: "session_row list"
  trusted_devices :: "trusted_device_row list"
  mfa_challenges :: "mfa_challenge_row list"
  mfa_login_challenges :: "mfa_login_challenge_row list"
  mfa_backup_codes :: "backup_code_row list"
  password_resets :: "password_reset_row list"

text \<open>
  The collaborators the services import but which are outside the core
  (\<open>utils/jwt.js\<close>, \<open>utils/crypto.js\<close>, \<open>utils/totp.js\<close>, \<open>utils/device.js\<close>,
  \<open>argon2\<close>, \<open>config/env.js\<close>) are parameters of every operation.
  \<open>verifyRefresh\<close> throws on a bad token: \<open>None\<close>; it returns the pair \<open>(sid, sub)\<close>.
\<close>

record caps =
  sha256 :: "string \<Rightarrow> string"
  hmacSha256 :: "string \<Rightarrow> string"
  backupHmac :: "string \<Rightarrow> string"
  signRefresh :: "string \<Rightarrow> string \<Rightarrow> nat \<Rightarrow> string"
  verifyRefresh :: "string \<Rightarrow> (string \<times> string) option"
  signAccess :: "string \<Rightarrow> role \<Rightarrow> string"
  verifyAccess :: "string \<Rightarrow> (string \<times> role) option"
  argon2_verify :: "string \<Rightarrow> string \<Rightarrow> bool"
  argon2_hash :: "string \<Rightarrow> string"
  decryptFromBlob :: "string \<Rightarrow> string"
  verifyTotp :: "string \<Rightarrow> string \<Rightarrow> bool"
  ipPrefix :: "string option \<Rightarrow> string"
  parseTrustedPayload :: "string \<Rightarrow> (string \<times> nat) option"
  ADMIN_REFRESH_TOKEN_TTL_SEC :: nat
  ADMIN_SESSION_REFRESH_TTL_SEC :: nat
  USER_REFRESH_TOKEN_TTL_SEC :: nat
  USER_SESSION_REFRESH_TTL_SEC :: nat
  MFA_LOGIN_TTL_SEC :: nat
  TRUSTED_DEVICE_TTL_DAYS :: nat

text \<open>
  What one call reads from its surroundings: the application clock (\<open>new Date()\<close>,
  \<open>Date.now()\<close>), the database clock (\<open>NOW()\<close>, \<open>dbNow()\<close>), the identifiers that
  \<open>ulid()\<close> hands out (first and second call), the bytes of \<open>crypto.randomBytes\<close>,
  the runtime flag \<open>trustedDeviceFpEnforceAll\<close>, the batch that \<open>generateBackupCodes\<close>
  (of \<open>utils/totp.js\<close>) hands out, as plain codes and as their hashes, and whether the
  store rejects the \<open>UPDATE\<close> that \<open>revokeAllTrustedDevices\<close> sends.
\<close>

record ctx =
  app_now :: instant
  db_now :: instant
  ulid1 :: string
  ulid2 :: string
  rand_token :: string
  trustedDeviceFpEnforceAll :: bool
  gen_codes :: "string list"
  gen_hashes :: "string list"
  revoke_devices_fails :: bool

record request =
  refresh_cookie :: "string option"
  trusted_cookie :: "string option"
  user_agent :: "string option"
  ip :: "string option"
  authorization :: "string option"

datatype error =
    NoRefresh | InvalidSession | TokenReuse | UserNotFound
  | InvalidCredentials | EmailNotVerified
  | InvalidPassword | PasswordReuse | InvalidToken
  | MfaNotEnabled | MfaMisconfigured | InvalidCode
  | InvalidChallenge | ChallengeExpired
  | JwtError | Argon2Error

text \<open>JavaScript truthiness of a nullable string: \<open>null\<close> and \<open>''\<close> are falsy.\<close>

definition truthy :: "string option \<Rightarrow> bool" where
  "truthy v = (case v of None \<Rightarrow> False | Some x \<Rightarrow> x \<noteq> [])"

definition or_empty :: "string option \<Rightarrow> string" where
  "or_empty v = (case v of None \<Rightarrow> [] | Some x \<Rightarrow> x)"

section \<open>Session ledger\<close>

definition ttlForRole :: "caps \<Rightarrow> role \<Rightarrow> bool \<Rightarrow> nat" where
  "ttlForRole c rl remember =
     (if rl = RoleAdmin
      then (if remember then ADMIN_REFRESH_TOKEN_TTL_SEC c else ADMIN_SESSION_REFRESH_TTL_SEC c)
      else (if remember then USER_REFRESH_TOKEN_TTL_SEC c else USER_SESSION_REFRESH_TTL_SEC c))"

text \<open>\<open>SELECT ... FROM sessions WHERE id = ? AND user_id = ? LIMIT 1\<close>\<close>

definition find_session :: "string \<Rightarrow> string \<Rightarrow> db \<Rightarrow> session_row option" where
  "find_session sid uid s = find (\<lambda>r. s_id r = sid \<and> s_user_id r = uid) (sessions s)"

text \<open>\<open>SELECT ... FROM users WHERE id = ? LIMIT 1\<close>\<close>

definition find_user :: "string \<Rightarrow> db \<Rightarrow> user_row option" where
  "find_user uid s = find (\<lambda>u. u_id u = uid) (users s)"

text \<open>\<open>UPDATE sessions SET revoked_at = NOW() WHERE id = ?\<close>\<close>

definition revoke_session :: "string \<Rightarrow> instant \<Rightarrow> session_row list \<Rightarrow> session_row list" where
  "revoke_session sid t rows =
     map (\<lambda>r. if s_id r = sid then r\<lparr>s_revoked_at := Some t\<rparr> else r) rows"

text \<open>\<open>UPDATE sessions SET revoked_at = NOW(), replaced_by = ? WHERE id = ?\<close>\<close>

definition replace_session ::
  "string \<Rightarrow> string \<Rightarrow> instant \<Rightarrow> session_row list \<Rightarrow> session_row list" where
  "replace_session sid newSid t rows =
     map (\<lambda>r. if s_id r = sid then r\<lparr>s_revoked_at := Some t, s_replaced_by := Some newSid\<rparr> else r)
       rows"

text \<open>\<open>UPDATE sessions SET revoked_at = NOW() WHERE user_id = ?\<close>\<close>

definition revoke_user_sessions :: "string \<Rightarrow> instant \<Rightarrow> session_row list \<Rightarrow> session_row list" where
  "revoke_user_sessions uid t rows =
     map (\<lambda>r. if s_user_id r = uid then r\<lparr>s_revoked_at := Some t\<rparr> else r) rows"

text \<open>The row every login path and the rotation insert into \<open>sessions\<close>.\<close>

definition new_session ::
  "string \<Rightarrow> string \<Rightarrow> string \<Rightarrow> request \<Rightarrow> bool \<Rightarrow> instant \<Rightarrow> session_row" where
  "new_session sid uid h rq remember exp =
     \<lparr>s_id = sid, s_user_id = uid, s_refresh_hash = h, s_user_agent = user_agent rq,
      s_ip = ip rq, s_remember = remember, s_expires_at = exp,
      s_revoked_at = None, s_replaced_by = None\<rparr>"

text \<open>
  \<open>setRefreshCookie\<close>: the refresh cookie put on the response, with its \<open>maxAge\<close> in
  milliseconds when the session is a remembered one.
\<close>

record cookie =
  ck_value :: string
  ck_maxAge :: "nat option"

definition setRefreshCookie :: "string \<Rightarrow> bool \<Rightarrow> nat \<Rightarrow> cookie" where
  "setRefreshCookie token remember maxAgeSec =
     \<lparr>ck_value = token, ck_maxAge = (if remember then Some (maxAgeSec * 1000) else None)\<rparr>"

record refresh_reply =
  rr_accessToken :: string
  rr_refreshCookie :: cookie

text \<open>
  \<open>refresh\<close>: the rotation. The result pairs what the caller sees (the thrown error or
  the reply) with the store after the call; a throw keeps the writes made before it.
\<close>

definition refresh :: "caps \<Rightarrow> ctx \<Rightarrow> request \<Rightarrow> db \<Rightarrow> (error + refresh_reply) \<times> db" where
  "refresh c w rq s =
     (if \<not> truthy (refresh_cookie rq) then (Inl NoRefresh, s)
      else let token = or_empty (refresh_cookie rq) in
        case verifyRefresh c token of
          None \<Rightarrow> (Inl JwtError, s)
        | Some (sid, userId) \<Rightarrow>
           (case find_session sid userId s of
              None \<Rightarrow> (Inl InvalidSession, s)
            | Some row \<Rightarrow>
               if s_revoked_at row \<noteq> None \<or> s_expires_at row < app_now w
               then (Inl InvalidSession, s)
               else if sha256 c token \<noteq> s_refresh_hash row
               then (Inl TokenReuse,
                     s\<lparr>sessions := revoke_session sid (db_now w) (sessions s)\<rparr>)
               else
                 (case find_user userId s of
                    None \<Rightarrow> (Inl UserNotFound, s)
                  | Some urec \<Rightarrow>
                     let rl = u_role urec;
                         remember = s_remember row;
                         ttlSec = ttlForRole c rl remember;
                         newSid = ulid1 w;
                         newRefresh = signRefresh c userId newSid ttlSec;
                         newHash = sha256 c newRefresh;
                         exp = db_now w + ttlSec * 1000
                     in (Inr \<lparr>rr_accessToken = signAccess c userId rl,
                              rr_refreshCookie = setRefreshCookie newRefresh remember ttlSec\<rparr>,
                         s\<lparr>sessions :=
                             replace_session sid newSid (db_now w) (sessions s)
                             @ [new_session newSid userId newHash rq remember exp]\<rparr>))))"



section \<open>Strings as the services handle them\<close>

text \<open>\<open>String.prototype.split\<close> on a one-character separator.\<close>

fun split_on :: "char \<Rightarrow> string \<Rightarrow> string list" where
  "split_on d [] = [[]]"
| "split_on d (x # xs) =
     (if x = d then [] # split_on d xs
      else (case split_on d xs of [] \<Rightarrow> [[x]] | p # ps \<Rightarrow> (x # p) # ps))"

text \<open>
  \<open>const [a, b] = raw.split('.')\<close>: the first two parts; the second is \<open>undefined\<close>
  when the string has no dot.
\<close>

definition dot_parts :: "string \<Rightarrow> string \<times> string option" where
  "dot_parts raw =
     (case split_on (CHR ''.'') raw of
        [] \<Rightarrow> ([], None)
      | [a] \<Rightarrow> (a, None)
      | a # b # _ \<Rightarrow> (a, Some b))"

definition upper_char :: "char \<Rightarrow> char" where
  "upper_char ch =
     (let n = (of_char ch :: nat) in if 97 \<le> n \<and> n \<le> 122 then char_of (n - 32) else ch)"

definition lower_char :: "char \<Rightarrow> char" where
  "lower_char ch =
     (let n = (of_char ch :: nat) in if 65 \<le> n \<and> n \<le> 90 then char_of (n + 32) else ch)"

definition toUpperCase :: "string \<Rightarrow> string" where
  "toUpperCase s = map upper_char s"

definition toLowerCase :: "string \<Rightarrow> string" where
  "toLowerCase s = map lower_char s"

definition is_space :: "char \<Rightarrow> bool" where
  "is_space ch = (let n = (of_char ch :: nat) in n = 32 \<or> (9 \<le> n \<and> n \<le> 13))"

definition trim :: "string \<Rightarrow> string" where
  "trim s = rev (dropWhile is_space (rev (dropWhile is_space s)))"

definition is_digit :: "char \<Rightarrow> bool" where
  "is_digit ch = (let n = (of_char ch :: nat) in 48 \<le> n \<and> n \<le> 57)"

text \<open>The test \<open>/^\d{6}$/\<close>.\<close>

definition six_digits :: "string \<Rightarrow> bool" where
  "six_digits code = (length code = 6 \<and> list_all is_digit code)"

section \<open>Trusted device registry\<close>

definition backupHash :: "caps \<Rightarrow> string \<Rightarrow> string" where
  "backupHash c code = backupHmac c code"

text \<open>The legacy signed cookie \<open>body.sig\<close>; the JSON payload is read by \<open>parseTrustedPayload\<close>.\<close>

definition verifyTrustedDevice :: "caps \<Rightarrow> string \<Rightarrow> (string \<times> nat) option" where
  "verifyTrustedDevice c token =
     (case dot_parts token of
        (body, sig) \<Rightarrow>
          if body = [] \<or> \<not> truthy sig then None
          else if hmacSha256 c body \<noteq> or_empty sig then None
          else parseTrustedPayload c body)"

text \<open>\<open>SELECT ... FROM trusted_devices WHERE id = ? LIMIT 1\<close>\<close>

definition find_device :: "string \<Rightarrow> db \<Rightarrow> trusted_device_row option" where
  "find_device did s = find (\<lambda>d. d_id d = did) (trusted_devices s)"

text \<open>\<open>UPDATE trusted_devices SET last_used_at = NOW() WHERE id = ?\<close>\<close>

definition touch_device ::
  "string \<Rightarrow> instant \<Rightarrow> trusted_device_row list \<Rightarrow> trusted_device_row list" where
  "touch_device did t rows =
     map (\<lambda>d. if d_id d = did then d\<lparr>d_last_used_at := Some t\<rparr> else d) rows"

definition fingerprint_of :: "caps \<Rightarrow> request \<Rightarrow> string" where
  "fingerprint_of c rq = sha256 c (or_empty (user_agent rq) @ ''|'' @ ipPrefix c (ip rq))"

text \<open>
  \<open>validateTrustedCookie\<close>. The update of \<open>last_used_at\<close> is fired without being
  awaited; the store returned is the one after it has landed.
\<close>

definition validateTrustedCookie ::
  "caps \<Rightarrow> ctx \<Rightarrow> request \<Rightarrow> string \<Rightarrow> role option \<Rightarrow> db \<Rightarrow> bool \<times> db" where
  "validateTrustedCookie c w rq userId rl s =
     (let raw = or_empty (trusted_cookie rq) in
      if raw = [] then (False, s)
      else
        (case dot_parts raw of
           (did, token) \<Rightarrow>
             if did \<noteq> [] \<and> truthy token then
               (case find_device did s of
                  None \<Rightarrow> (False, s)
                | Some rec \<Rightarrow>
                   if d_user_id rec \<noteq> userId then (False, s)
                   else if d_revoked_at rec \<noteq> None then (False, s)
                   else if d_expires_at rec \<le> app_now w then (False, s)
                   else if sha256 c (or_empty token) \<noteq> d_token_hash rec then (False, s)
                   else
                     let needFp = (rl = Some RoleAdmin \<or> trustedDeviceFpEnforceAll w) in
                     if needFp \<and> truthy (d_fingerprint rec)
                        \<and> Some (fingerprint_of c rq) \<noteq> d_fingerprint rec
                     then (False, s)
                     else (True,
                           s\<lparr>trusted_devices := touch_device did (db_now w) (trusted_devices s)\<rparr>))
             else
               (case verifyTrustedDevice c raw of
                  None \<Rightarrow> (False, s)
                | Some (sub, exp) \<Rightarrow>
                   if sub = userId \<and> exp > app_now w then (True, s) else (False, s))))"

text \<open>
  \<open>revokeAllTrustedDevices\<close>: \<open>UPDATE trusted_devices SET revoked_at = NOW() WHERE
  user_id = ? AND revoked_at IS NULL\<close> inside a \<open>try\<close>. When the store rejects the
  statement the error is caught and logged, the function returns as usual, and the rows
  are what they were.
\<close>

definition revokeAllTrustedDevices ::
  "bool \<Rightarrow> string \<Rightarrow> instant \<Rightarrow> trusted_device_row list \<Rightarrow> trusted_device_row list" where
  "revokeAllTrustedDevices fails uid t rows =
     (if fails then rows
      else map (\<lambda>d. if d_user_id d = uid \<and> d_revoked_at d = None
                     then d\<lparr>d_revoked_at := Some t\<rparr> else d) rows)"

text \<open>\<open>createTrustedDevice\<close>: the new row and the cookie value \<open>id.token\<close>.\<close>

definition createTrustedDevice :: "caps \<Rightarrow> ctx \<Rightarrow> request \<Rightarrow> string \<Rightarrow> db \<Rightarrow> string \<times> db" where
  "createTrustedDevice c w rq userId s =
     (let token = rand_token w;
          did = ulid2 w;
          exp = db_now w + TRUSTED_DEVICE_TTL_DAYS c * 24 * 60 * 60 * 1000
      in (did @ ''.'' @ token,
          s\<lparr>trusted_devices := trusted_devices s @
              [\<lparr>d_id = did, d_user_id = userId, d_token_hash = sha256 c token,
                d_fingerprint = Some (fingerprint_of c rq), d_user_agent = user_agent rq,
                d_ip = ip rq, d_created_at = db_now w, d_last_used_at = None,
                d_expires_at = exp, d_revoked_at = None\<rparr>]\<rparr>))"

text \<open>The rows a user still holds: \<open>revoked_at IS NULL\<close>.\<close>

definition live_sessions :: "string \<Rightarrow> db \<Rightarrow> session_row list" where
  "live_sessions uid s = filter (\<lambda>r. s_user_id r = uid \<and> s_revoked_at r = None) (sessions s)"

definition live_devices :: "string \<Rightarrow> db \<Rightarrow> trusted_device_row list" where
  "live_devices uid s =
     filter (\<lambda>d. d_user_id d = uid \<and> d_revoked_at d = None) (trusted_devices s)"

section \<open>Credential lifecycle\<close>

record user_dto =
  dto_id :: string
  dto_fullName :: string
  dto_email :: string
  dto_phone :: "string option"
  dto_role :: role
  dto_mfaEnabled :: bool

text \<open>
  What \<open>login\<close> and \<open>verifyMfaLogin\<close> hand back: tokens (the access token in the body,
  the refresh token and, when asked for, the trust cookie on the response), or the
  second-factor-required answer.
\<close>

datatype auth_reply =
    AuthOutput string cookie "string option" user_dto
  | MfaChallenge string instant

fun is_tokens :: "error + auth_reply \<Rightarrow> bool" where
  "is_tokens (Inr (AuthOutput a r t u)) = True"
| "is_tokens other = False"

text \<open>\<open>SELECT ... FROM users WHERE email = ? LIMIT 1\<close>, asked with the lower-cased address.\<close>

definition find_user_by_email :: "string \<Rightarrow> db \<Rightarrow> user_row option" where
  "find_user_by_email e s = find (\<lambda>u. u_email u = toLowerCase e) (users s)"

text \<open>\<open>argon2.verify\<close> throws on a hash that is not a string.\<close>

definition password_ok :: "caps \<Rightarrow> string option \<Rightarrow> string \<Rightarrow> bool option" where
  "password_ok c h pw = (case h of None \<Rightarrow> None | Some x \<Rightarrow> Some (argon2_verify c x pw))"

text \<open>
  The block the three token-issuing paths share: a fresh session id, a refresh token
  bound to it and the session row; it yields the access token and the refresh cookie.
\<close>

definition user_dto_of :: "user_row \<Rightarrow> bool \<Rightarrow> user_dto" where
  "user_dto_of u mfa =
     \<lparr>dto_id = u_id u, dto_fullName = u_full_name u, dto_email = u_email u,
      dto_phone = u_phone u, dto_role = u_role u, dto_mfaEnabled = mfa\<rparr>"

definition issue_session ::
  "caps \<Rightarrow> ctx \<Rightarrow> request \<Rightarrow> user_row \<Rightarrow> bool \<Rightarrow> db \<Rightarrow> (string \<times> cookie) \<times> db" where
  "issue_session c w rq u remember s =
     (let rl = u_role u;
          ttlSec = ttlForRole c rl remember;
          sid = ulid1 w;
          refreshTok = signRefresh c (u_id u) sid ttlSec;
          exp = db_now w + ttlSec * 1000
      in ((signAccess c (u_id u) rl, setRefreshCookie refreshTok remember ttlSec),
          s\<lparr>sessions := sessions s @
              [new_session sid (u_id u) (sha256 c refreshTok) rq remember exp]\<rparr>))"

definition login ::
  "caps \<Rightarrow> ctx \<Rightarrow> string \<Rightarrow> string \<Rightarrow> bool \<Rightarrow> request \<Rightarrow> db \<Rightarrow> (error + auth_reply) \<times> db" where
  "login c w email password remember rq s =
     (case find_user_by_email email s of
        None \<Rightarrow> (Inl InvalidCredentials, s)
      | Some u \<Rightarrow>
         if u_status u \<noteq> ''active'' then (Inl InvalidCredentials, s)
         else
           (case password_ok c (u_password_hash u) password of
              None \<Rightarrow> (Inl Argon2Error, s)
            | Some ok \<Rightarrow>
               if \<not> ok then (Inl InvalidCredentials, s)
               else if u_email_verified_at u = None then (Inl EmailNotVerified, s)
               else if u_mfa_enabled u then
                 (case validateTrustedCookie c w rq (u_id u) (Some (u_role u)) s of
                    (isTrusted, s1) \<Rightarrow>
                      if isTrusted then
                        (case issue_session c w rq u remember s1 of
                           ((access, refreshTok), s2) \<Rightarrow>
                             (Inr (AuthOutput access refreshTok None
                                     (user_dto_of u (u_mfa_enabled u))), s2))
                      else
                        let pendingId = ulid1 w;
                            exp = db_now w + MFA_LOGIN_TTL_SEC c * 1000
                        in (Inr (MfaChallenge pendingId exp),
                            s1\<lparr>mfa_login_challenges := mfa_login_challenges s1 @
                                 [\<lparr>ml_id = pendingId, ml_user_id = u_id u,
                                   ml_remember = remember, ml_user_agent = user_agent rq,
                                   ml_ip = ip rq, ml_expires_at = exp,
                                   ml_consumed_at = None\<rparr>]\<rparr>))
               else
                 (case issue_session c w rq u remember s of
                    ((access, refreshTok), s2) \<Rightarrow>
                      (Inr (AuthOutput access refreshTok None
                              (user_dto_of u (u_mfa_enabled u))), s2))))"

text \<open>\<open>UPDATE users SET password_hash = ? WHERE id = ?\<close>\<close>

definition set_password :: "string \<Rightarrow> string \<Rightarrow> user_row list \<Rightarrow> user_row list" where
  "set_password uid h rows =
     map (\<lambda>u. if u_id u = uid then u\<lparr>u_password_hash := Some h\<rparr> else u) rows"

definition changePassword ::
  "caps \<Rightarrow> ctx \<Rightarrow> string \<Rightarrow> string \<Rightarrow> string \<Rightarrow> db \<Rightarrow> (error + unit) \<times> db" where
  "changePassword c w userId oldPassword newPassword s =
     (case find_user userId s of
        None \<Rightarrow> (Inl UserNotFound, s)
      | Some u \<Rightarrow>
         if \<not> truthy (u_password_hash u) then (Inl UserNotFound, s)
         else
           let h = or_empty (u_password_hash u) in
           if \<not> argon2_verify c h oldPassword then (Inl InvalidPassword, s)
           else if argon2_verify c h newPassword then (Inl PasswordReuse, s)
           else
             (Inr (),
              s\<lparr>users := set_password userId (argon2_hash c newPassword) (users s),
                sessions := revoke_user_sessions userId (db_now w) (sessions s),
                trusted_devices :=
                  revokeAllTrustedDevices (revoke_devices_fails w) userId (db_now w)
                    (trusted_devices s)\<rparr>))"

text \<open>
  \<open>SELECT ... FROM password_resets WHERE token_hash = ? AND used_at IS NULL
  AND expires_at > NOW() LIMIT 1\<close>
\<close>

definition find_reset :: "string \<Rightarrow> instant \<Rightarrow> db \<Rightarrow> password_reset_row option" where
  "find_reset h t s =
     find (\<lambda>r. pr_token_hash r = h \<and> pr_used_at r = None \<and> pr_expires_at r > t)
       (password_resets s)"

text \<open>\<open>UPDATE password_resets SET used_at = NOW() WHERE id = ?\<close>\<close>

definition use_reset ::
  "nat \<Rightarrow> instant \<Rightarrow> password_reset_row list \<Rightarrow> password_reset_row list" where
  "use_reset rid t rows = map (\<lambda>r. if pr_id r = rid then r\<lparr>pr_used_at := Some t\<rparr> else r) rows"

text \<open>\<open>resetPasswordWithToken\<close>; the reply is the address of the user, \<open>null\<close> without a row.\<close>

definition resetPasswordWithToken ::
  "caps \<Rightarrow> ctx \<Rightarrow> string \<Rightarrow> string \<Rightarrow> db \<Rightarrow> (error + string option) \<times> db" where
  "resetPasswordWithToken c w token newPassword s =
     (case find_reset (sha256 c token) (db_now w) s of
        None \<Rightarrow> (Inl InvalidToken, s)
      | Some r \<Rightarrow>
         let existing = find_user (pr_user_id r) s;
             userEmail = map_option u_email existing;
             curHash = (case existing of None \<Rightarrow> None | Some u \<Rightarrow> u_password_hash u)
         in
           if truthy curHash \<and> argon2_verify c (or_empty curHash) newPassword
           then (Inl PasswordReuse, s)
           else
             (Inr userEmail,
              s\<lparr>users := set_password (pr_user_id r) (argon2_hash c newPassword) (users s),
                password_resets := use_reset (pr_id r) (db_now w) (password_resets s),
                sessions := revoke_user_sessions (pr_user_id r) (db_now w) (sessions s),
                trusted_devices :=
                  revokeAllTrustedDevices (revoke_devices_fails w) (pr_user_id r) (db_now w)
                    (trusted_devices s)\<rparr>))"

section \<open>MFA engine\<close>

text \<open>
  \<open>SELECT id FROM mfa_backup_codes WHERE user_id = ? AND code_hash = ?
  AND used_at IS NULL LIMIT 1\<close>
\<close>

definition find_backup :: "string \<Rightarrow> string \<Rightarrow> db \<Rightarrow> backup_code_row option" where
  "find_backup uid h s =
     find (\<lambda>b. bc_user_id b = uid \<and> bc_code_hash b = h \<and> bc_used_at b = None)
       (mfa_backup_codes s)"

text \<open>\<open>UPDATE mfa_backup_codes SET used_at = NOW() WHERE id = ?\<close>\<close>

definition use_backup :: "nat \<Rightarrow> instant \<Rightarrow> backup_code_row list \<Rightarrow> backup_code_row list" where
  "use_backup bid t rows = map (\<lambda>b. if bc_id b = bid then b\<lparr>bc_used_at := Some t\<rparr> else b) rows"

text \<open>The loop of \<open>disableMfa\<close> over the candidate hashes: the first that finds a row wins.\<close>

fun first_backup :: "string \<Rightarrow> string list \<Rightarrow> db \<Rightarrow> backup_code_row option" where
  "first_backup uid [] s = None"
| "first_backup uid (h # hs) s =
     (case find_backup uid h s of None \<Rightarrow> first_backup uid hs s | Some b \<Rightarrow> Some b)"

text \<open>The hyphenated spelling \<open>XXXX-YYYY\<close> of an input longer than four characters.\<close>

definition pretty_code :: "string \<Rightarrow> string" where
  "pretty_code rawInput =
     (if length rawInput > 4 then take 4 rawInput @ ''-'' @ drop 4 rawInput else rawInput)"

text \<open>
  The second factor of both flows starts alike: a code of six digits is tried as TOTP,
  which throws when the user has no secret (the column is a blob: any value is truthy).
\<close>

definition totp_step :: "caps \<Rightarrow> string \<Rightarrow> string option \<Rightarrow> error + bool" where
  "totp_step c code secret =
     (if six_digits code then
        (case secret of
           None \<Rightarrow> Inl MfaMisconfigured
         | Some enc \<Rightarrow> Inr (verifyTotp c code (decryptFromBlob c enc)))
      else Inr False)"

text \<open>\<open>UPDATE users SET mfa_enabled = 0, mfa_secret_enc = NULL WHERE id = ?\<close>\<close>

definition clear_mfa :: "string \<Rightarrow> user_row list \<Rightarrow> user_row list" where
  "clear_mfa uid rows =
     map (\<lambda>u. if u_id u = uid then u\<lparr>u_mfa_enabled := False, u_mfa_secret_enc := None\<rparr> else u)
       rows"

definition disableMfa ::
  "caps \<Rightarrow> ctx \<Rightarrow> string \<Rightarrow> string \<Rightarrow> string \<Rightarrow> db \<Rightarrow> (error + unit) \<times> db" where
  "disableMfa c w userId password code s =
     (case find_user userId s of
        None \<Rightarrow> (Inl UserNotFound, s)
      | Some u \<Rightarrow>
         if \<not> u_mfa_enabled u then (Inl MfaNotEnabled, s)
         else
           (case password_ok c (u_password_hash u) password of
              None \<Rightarrow> (Inl Argon2Error, s)
            | Some passOk \<Rightarrow>
               if \<not> passOk then (Inl InvalidPassword, s)
               else
                 (case totp_step c code (u_mfa_secret_enc u) of
                    Inl e \<Rightarrow> (Inl e, s)
                  | Inr ok \<Rightarrow>
                     let rawInput = trim (toUpperCase code);
                         candidates = [backupHash c rawInput, backupHash c (pretty_code rawInput)];
                         bc = (if ok then None else first_backup userId candidates s)
                     in
                       if \<not> ok \<and> bc = None then (Inl InvalidCode, s)
                       else
                         let codes1 = (case bc of
                                         None \<Rightarrow> mfa_backup_codes s
                                       | Some b \<Rightarrow> use_backup (bc_id b) (db_now w) (mfa_backup_codes s))
                         in (Inr (),
                             s\<lparr>users := clear_mfa userId (users s),
                               mfa_backup_codes := filter (\<lambda>b. bc_user_id b \<noteq> userId) codes1,
                               trusted_devices :=
                                 revokeAllTrustedDevices (revoke_devices_fails w) userId
                                   (db_now w) (trusted_devices s)\<rparr>))))"

text \<open>
  \<open>SELECT ... FROM mfa_login_challenges ml JOIN users u ON u.id = ml.user_id
  WHERE ml.id = ? LIMIT 1\<close>: the first challenge of that id whose user has a row,
  with that row.
\<close>

definition find_challenge :: "string \<Rightarrow> db \<Rightarrow> (mfa_login_challenge_row \<times> user_row) option" where
  "find_challenge cid s =
     (case find (\<lambda>m. ml_id m = cid \<and> find_user (ml_user_id m) s \<noteq> None)
             (mfa_login_challenges s) of
        None \<Rightarrow> None
      | Some m \<Rightarrow> map_option (\<lambda>u. (m, u)) (find_user (ml_user_id m) s))"

text \<open>\<open>UPDATE mfa_login_challenges SET consumed_at = NOW() WHERE id = ?\<close>\<close>

definition consume_challenge ::
  "string \<Rightarrow> instant \<Rightarrow> mfa_login_challenge_row list \<Rightarrow> mfa_login_challenge_row list" where
  "consume_challenge cid t rows =
     map (\<lambda>m. if ml_id m = cid then m\<lparr>ml_consumed_at := Some t\<rparr> else m) rows"

definition verifyMfaLogin ::
  "caps \<Rightarrow> ctx \<Rightarrow> string \<Rightarrow> string \<Rightarrow> bool \<Rightarrow> request \<Rightarrow> db \<Rightarrow> (error + auth_reply) \<times> db" where
  "verifyMfaLogin c w challengeId code rememberDevice rq s =
     (case find_challenge challengeId s of
        None \<Rightarrow> (Inl InvalidChallenge, s)
      | Some (rec, u) \<Rightarrow>
         if ml_consumed_at rec \<noteq> None then (Inl InvalidChallenge, s)
         else if ml_expires_at rec < app_now w then (Inl ChallengeExpired, s)
         else
           let userId = ml_user_id rec in
           (case totp_step c code (u_mfa_secret_enc u) of
              Inl e \<Rightarrow> (Inl e, s)
            | Inr ok \<Rightarrow>
               let bc = (if ok then None
                         else find_backup userId (backupHash c (trim (toUpperCase code))) s)
               in
                 if \<not> ok \<and> bc = None then (Inl InvalidCode, s)
                 else
                   let s1 = (case bc of
                               None \<Rightarrow> s
                             | Some b \<Rightarrow>
                                s\<lparr>mfa_backup_codes :=
                                    use_backup (bc_id b) (db_now w) (mfa_backup_codes s)\<rparr>);
                       s2 = s1\<lparr>mfa_login_challenges :=
                                consume_challenge challengeId (db_now w) (mfa_login_challenges s1)\<rparr>
                   in
                     (case issue_session c w rq u (ml_remember rec) s2 of
                        ((access, refreshTok), s3) \<Rightarrow>
                          if rememberDevice then
                            (case createTrustedDevice c w rq userId s3 of
                               (cookie, s4) \<Rightarrow>
                                 (Inr (AuthOutput access refreshTok (Some cookie)
                                         (user_dto_of u True)), s4))
                          else (Inr (AuthOutput access refreshTok None (user_dto_of u True)),
                                s3))))"

text \<open>
  The rows a fresh batch adds: \<open>INSERT INTO mfa_backup_codes (user_id, code_hash) VALUES
  ...\<close>, one row per hash, with the next identifiers of the auto-increment column.
\<close>

definition mint_backup_codes ::
  "string \<Rightarrow> string list \<Rightarrow> backup_code_row list \<Rightarrow> backup_code_row list" where
  "mint_backup_codes uid hashes rows =
     (let n = Suc (fold max (map bc_id rows) 0) in
      rows @ map (\<lambda>(i, h). \<lparr>bc_id = i, bc_user_id = uid, bc_code_hash = h, bc_used_at = None\<rparr>)
               (zip [n ..< n + length hashes] hashes))"

text \<open>\<open>UPDATE mfa_backup_codes SET used_at = NOW() WHERE user_id = ? AND used_at IS NULL\<close>\<close>

definition retire_backup_codes ::
  "string \<Rightarrow> instant \<Rightarrow> backup_code_row list \<Rightarrow> backup_code_row list" where
  "retire_backup_codes uid t rows =
     map (\<lambda>b. if bc_user_id b = uid \<and> bc_used_at b = None then b\<lparr>bc_used_at := Some t\<rparr> else b)
       rows"

text \<open>\<open>regenerateBackupCodes\<close>; the reply is the plain codes of the batch.\<close>

definition regenerateBackupCodes :: "ctx \<Rightarrow> string \<Rightarrow> db \<Rightarrow> string list \<times> db" where
  "regenerateBackupCodes w userId s =
     (gen_codes w,
      s\<lparr>mfa_backup_codes :=
          mint_backup_codes userId (gen_hashes w)
            (retire_backup_codes userId (db_now w) (mfa_backup_codes s))\<rparr>)"

text \<open>\<open>SELECT ... FROM mfa_challenges WHERE id = ? AND user_id = ? LIMIT 1\<close>\<close>

definition find_enrollment :: "string \<Rightarrow> string \<Rightarrow> db \<Rightarrow> mfa_challenge_row option" where
  "find_enrollment cid uid s =
     find (\<lambda>m. mc_id m = cid \<and> mc_user_id m = uid) (mfa_challenges s)"

text \<open>\<open>verifyMfaSetup\<close>; the reply is the plain codes of the batch.\<close>

definition verifyMfaSetup ::
  "caps \<Rightarrow> ctx \<Rightarrow> string \<Rightarrow> string \<Rightarrow> string \<Rightarrow> db \<Rightarrow> (error + string list) \<times> db" where
  "verifyMfaSetup c w userId challengeId code s =
     (case find_enrollment challengeId userId s of
        None \<Rightarrow> (Inl InvalidChallenge, s)
      | Some ch \<Rightarrow>
         if mc_consumed_at ch \<noteq> None then (Inl InvalidChallenge, s)
         else if mc_expires_at ch < app_now w then (Inl ChallengeExpired, s)
         else if \<not> verifyTotp c code (decryptFromBlob c (mc_secret_enc ch))
         then (Inl InvalidCode, s)
         else
           (Inr (gen_codes w),
            s\<lparr>users :=
                map (\<lambda>u. if u_id u = userId
                          then u\<lparr>u_mfa_secret_enc := Some (mc_secret_enc ch), u_mfa_enabled := True\<rparr>
                          else u) (users s),
              mfa_challenges :=
                map (\<lambda>m. if mc_id m = challengeId then m\<lparr>mc_consumed_at := Some (db_now w)\<rparr>
                          else m) (mfa_challenges s),
              mfa_backup_codes :=
                mint_backup_codes userId (gen_hashes w) (mfa_backup_codes s),
              trusted_devices :=
                revokeAllTrustedDevices (revoke_devices_fails w) userId (db_now w)
                  (trusted_devices s)\<rparr>))"

section \<open>Authorization gate\<close>

definition authenticateViaRefreshCookie ::
  "caps \<Rightarrow> ctx \<Rightarrow> request \<Rightarrow> db \<Rightarrow> (error + (string \<times> role) option) \<times> db" where
  "authenticateViaRefreshCookie c w rq s =
     (if \<not> truthy (refresh_cookie rq) then (Inr None, s)
      else let token = or_empty (refresh_cookie rq) in
        case verifyRefresh c token of
          None \<Rightarrow> (Inl JwtError, s)
        | Some (sid, sub) \<Rightarrow>
           let session = find_session sid sub s;
               mismatch = (case session of
                             None \<Rightarrow> False
                           | Some r \<Rightarrow> sha256 c token \<noteq> s_refresh_hash r);
               bad = (case session of
                        None \<Rightarrow> True
                      | Some r \<Rightarrow> s_revoked_at r \<noteq> None \<or> s_expires_at r < app_now w
                                  \<or> sha256 c token \<noteq> s_refresh_hash r)
           in
             if bad then
               (Inr None,
                if mismatch then s\<lparr>sessions := revoke_session sid (db_now w) (sessions s)\<rparr> else s)
             else
               (case find_user sub s of
                  None \<Rightarrow> (Inr None, s)
                | Some u \<Rightarrow> (Inr (Some (sub, u_role u)), s)))"

text \<open>
  What the gate does with the request: attach the identity and go on, answer 401 with
  a message, or pass a thrown error to the error handler.
\<close>

datatype gate = Proceed string role | Status401 string | NextError error

definition bearer_prefix :: string where
  "bearer_prefix = ''Bearer ''"

definition requireAuth :: "caps \<Rightarrow> ctx \<Rightarrow> request \<Rightarrow> db \<Rightarrow> gate \<times> db" where
  "requireAuth c w rq s =
     (let authz = or_empty (authorization rq) in
      if take 7 authz = bearer_prefix then
        (case verifyAccess c (drop 7 authz) of
           Some (sub, rl) \<Rightarrow> (Proceed sub rl, s)
         | None \<Rightarrow> (Status401 ''Invalid token'', s))
      else
        (case authenticateViaRefreshCookie c w rq s of
           (Inl e, s1) \<Rightarrow> (NextError e, s1)
         | (Inr None, s1) \<Rightarrow> (Status401 ''No token'', s1)
         | (Inr (Some (uid, rl)), s1) \<Rightarrow> (Proceed uid rl, s1)))"

section \<open>Runs of calls\<close>

text \<open>The operations of the core as calls that can follow one another.\<close>

datatype call =
    LoginCall caps ctx string string bool request
  | RefreshCall caps ctx request
  | RequireAuthCall caps ctx request
  | ChangePasswordCall caps ctx string string string
  | ResetPasswordCall caps ctx string string
  | VerifyLoginCall caps ctx string string bool request
  | DisableMfaCall caps ctx string string string
  | RegenerateCall ctx string
  | VerifySetupCall caps ctx string string string

fun run_call :: "call \<Rightarrow> db \<Rightarrow> db" where
  "run_call (LoginCall c w email pw remember rq) s = snd (login c w email pw remember rq s)"
| "run_call (RefreshCall c w rq) s = snd (refresh c w rq s)"
| "run_call (RequireAuthCall c w rq) s = snd (requireAuth c w rq s)"
| "run_call (ChangePasswordCall c w uid old new) s = snd (changePassword c w uid old new s)"
| "run_call (ResetPasswordCall c w tok new) s = snd (resetPasswordWithToken c w tok new s)"
| "run_call (VerifyLoginCall c w cid code rd rq) s = snd (verifyMfaLogin c w cid code rd rq s)"
| "run_call (DisableMfaCall c w uid pw code) s = snd (disableMfa c w uid pw code s)"
| "run_call (RegenerateCall w uid) s = snd (regenerateBackupCodes w uid s)"
| "run_call (VerifySetupCall c w uid cid code) s = snd (verifyMfaSetup c w uid cid code s)"

fun run_calls :: "call list \<Rightarrow> db \<Rightarrow> db" where
  "run_calls [] s = s"
| "run_calls (cl # calls) s = run_calls calls (run_call cl s)"

text \<open>A call that may mint a batch of backup codes holding the hash \<open>h\<close> for the user.\<close>

fun mints :: "string \<Rightarrow> string \<Rightarrow> call \<Rightarrow> bool" where
  "mints uid h (RegenerateCall w uid') = (uid' = uid \<and> h \<in> set (gen_hashes w))"
| "mints uid h (VerifySetupCall c w uid' cid code) = (uid' = uid \<and> h \<in> set (gen_hashes w))"
| "mints uid h other = False"

definition remints :: "string \<Rightarrow> string \<Rightarrow> call list \<Rightarrow> bool" where
  "remints uid h calls = list_ex (mints uid h) calls"

text \<open>The unused rows that hold a given code of a user.\<close>

definition unused_codes :: "string \<Rightarrow> string \<Rightarrow> db \<Rightarrow> backup_code_row list" where
  "unused_codes uid h s =
     filter (\<lambda>b. bc_user_id b = uid \<and> bc_code_hash b = h \<and> bc_used_at b = None)
       (mfa_backup_codes s)"

section \<open>A concrete deployment\<close>

text \<open>
  Stand-ins for the collaborators, simple enough to compute with: a hash prefixes its
  input, a refresh token is \<open>sub.sid\<close>, a password hash is the password behind \<open>pw:\<close>,
  the TOTP code of the moment is the secret itself.
\<close>

definition demo_caps :: caps where
  "demo_caps =
     \<lparr>sha256 = (\<lambda>t. ''h:'' @ t),
      hmacSha256 = (\<lambda>t. ''m:'' @ t),
      backupHmac = (\<lambda>t. ''b:'' @ t),
      signRefresh = (\<lambda>sub sid ttl. sub @ ''.'' @ sid),
      verifyRefresh = (\<lambda>t. case split_on (CHR ''.'') t of
                              [sub, sid] \<Rightarrow> Some (sid, sub) | _ \<Rightarrow> None),
      signAccess = (\<lambda>sub rl. ''access:'' @ sub),
      verifyAccess = (\<lambda>t. if t = ''access:u1'' then Some (''u1'', RoleUser) else None),
      argon2_verify = (\<lambda>h pw. h = ''pw:'' @ pw),
      argon2_hash = (\<lambda>pw. ''pw:'' @ pw),
      decryptFromBlob = (\<lambda>b. b),
      verifyTotp = (\<lambda>code secret. code = secret),
      ipPrefix = or_empty,
      parseTrustedPayload = (\<lambda>b. None),
      ADMIN_REFRESH_TOKEN_TTL_SEC = 20,
      ADMIN_SESSION_REFRESH_TTL_SEC = 10,
      USER_REFRESH_TOKEN_TTL_SEC = 40,
      USER_SESSION_REFRESH_TTL_SEC = 30,
      MFA_LOGIN_TTL_SEC = 5,
      TRUSTED_DEVICE_TTL_DAYS = 1\<rparr>"

definition demo_ctx :: ctx where
  "demo_ctx = \<lparr>app_now = 1000, db_now = 1000, ulid1 = ''S1'', ulid2 = ''D1'',
               rand_token = ''r1'', trustedDeviceFpEnforceAll = False,
               gen_codes = [''WXYZ-2345''], gen_hashes = [''b:WXYZ-2345''],
               revoke_devices_fails = False\<rparr>"

definition demo_rq :: request where
  "demo_rq = \<lparr>refresh_cookie = Some ''u1.S0'', trusted_cookie = None,
              user_agent = Some ''ua'', ip = Some ''10.0.0.1'', authorization = None\<rparr>"

definition demo_user :: user_row where
  "demo_user =
     \<lparr>u_id = ''u1'', u_full_name = ''Ann'', u_email = ''ann@example.com'', u_phone = None,
      u_password_hash = Some ''pw:old-secret'', u_role = RoleUser, u_status = ''active'',
      u_mfa_enabled = True, u_mfa_secret_enc = Some ''123456'',
      u_email_verified_at = Some 1\<rparr>"

definition demo_session :: session_row where
  "demo_session =
     \<lparr>s_id = ''S0'', s_user_id = ''u1'', s_refresh_hash = ''h:u1.S0'', s_user_agent = None,
      s_ip = None, s_remember = False, s_expires_at = 5000, s_revoked_at = None,
      s_replaced_by = None\<rparr>"

definition demo_device :: trusted_device_row where
  "demo_device =
     \<lparr>d_id = ''D0'', d_user_id = ''u1'', d_token_hash = ''h:tok0'',
      d_fingerprint = Some ''h:ua|10.0.0.1'', d_user_agent = Some ''ua'',
      d_ip = Some ''10.0.0.1'', d_created_at = 0, d_last_used_at = None,
      d_expires_at = 9000, d_revoked_at = None\<rparr>"

definition demo_challenge :: mfa_login_challenge_row where
  "demo_challenge =
     \<lparr>ml_id = ''challenge-0'', ml_user_id = ''u1'', ml_remember = True, ml_user_agent = None,
      ml_ip = None, ml_expires_at = 2000, ml_consumed_at = None\<rparr>"

definition demo_backup :: backup_code_row where
  "demo_backup =
     \<lparr>bc_id = 1, bc_user_id = ''u1'', bc_code_hash = ''b:ABCD-EFGH'', bc_used_at = None\<rparr>"

definition demo_reset :: password_reset_row where
  "demo_reset =
     \<lparr>pr_id = 1, pr_user_id = ''u1'', pr_token_hash = ''h:reset-token'',
      pr_expires_at = 3000, pr_used_at = None\<rparr>"

definition demo_db :: db where
  "demo_db =
     \<lparr>users = [demo_user], sessions = [demo_session], trusted_devices = [demo_device],
      mfa_challenges = [],
      mfa_login_challenges = [demo_challenge, demo_challenge\<lparr>ml_id := ''challenge-1''\<rparr>],
      mfa_backup_codes = [demo_backup], password_resets = [demo_reset]\<rparr>"


text \<open>The store after a login that spent the demo backup code, and after MFA was disabled.\<close>

definition demo_db2 :: db where
  "demo_db2 = snd (verifyMfaLogin demo_caps demo_ctx ''challenge-0'' ''abcd-efgh'' False demo_rq demo_db)"

definition demo_db3 :: db where
  "demo_db3 = snd (disableMfa demo_caps demo_ctx ''u1'' ''old-secret'' ''abcd-efgh'' demo_db)"

section \<open>Lookups and updates\<close>

lemmas demo_defs =
  demo_caps_def demo_ctx_def demo_rq_def demo_user_def demo_session_def demo_device_def
  demo_challenge_def demo_backup_def demo_reset_def demo_db_def

lemmas lookup_defs =
  truthy_def or_empty_def find_session_def find_user_def find_device_def
  find_user_by_email_def find_reset_def find_backup_def find_challenge_def

lemma find_map_keep: "(\<And>x. P (f x) = P x) \<Longrightarrow> find P (map f xs) = map_option f (find P xs)"
  by (induction xs) auto

lemma find_append_cases:
  "find P (xs @ ys) = (case find P xs of None \<Rightarrow> find P ys | Some x \<Rightarrow> Some x)"
  by (induction xs) auto

section \<open>Rotation of refresh tokens\<close>

lemma find_session_revoke:
  "find_session sid uid (s\<lparr>sessions := revoke_session sid' t (sessions s)\<rparr>) =
     map_option (\<lambda>r. if s_id r = sid' then r\<lparr>s_revoked_at := Some t\<rparr> else r) (find_session sid uid s)"
  unfolding find_session_def revoke_session_def
  by (simp add: find_map_keep)

lemma find_session_replace:
  "find_session sid uid (s\<lparr>sessions := replace_session sid' n t (sessions s) @ extra\<rparr>) =
     (case find_session sid uid s of
        None \<Rightarrow> find (\<lambda>r. s_id r = sid \<and> s_user_id r = uid) extra
      | Some r \<Rightarrow> Some (if s_id r = sid' then r\<lparr>s_revoked_at := Some t, s_replaced_by := Some n\<rparr> else r))"
  unfolding find_session_def replace_session_def
  by (simp add: find_append_cases find_map_keep split: option.splits)

lemma find_session_Some_id: "find_session sid uid s = Some r \<Longrightarrow> s_id r = sid \<and> s_user_id r = uid"
  unfolding find_session_def by (auto simp: find_Some_iff)













lemma refresh_absent:
  assumes "refresh_cookie rq = Some t" and "t \<noteq> []" and "verifyRefresh c t = Some (sid, uid)"
    and "find_session sid uid s = None"
  shows "refresh c w rq s = (Inl InvalidSession, s)"
  using assms by (simp add: refresh_def truthy_def or_empty_def)

lemma refresh_stale:
  assumes "refresh_cookie rq = Some t" and "t \<noteq> []" and "verifyRefresh c t = Some (sid, uid)"
    and "find_session sid uid s = Some row"
    and "s_revoked_at row \<noteq> None \<or> s_expires_at row < app_now w"
  shows "refresh c w rq s = (Inl InvalidSession, s)"
  using assms by (auto simp add: refresh_def truthy_def or_empty_def)

lemma refresh_mismatch:
  assumes "refresh_cookie rq = Some t" and "t \<noteq> []" and "verifyRefresh c t = Some (sid, uid)"
    and "find_session sid uid s = Some row"
    and "s_revoked_at row = None" and "\<not> s_expires_at row < app_now w"
    and "sha256 c t \<noteq> s_refresh_hash row"
  shows "refresh c w rq s =
           (Inl TokenReuse, s\<lparr>sessions := revoke_session sid (db_now w) (sessions s)\<rparr>)"
  using assms by (simp add: refresh_def truthy_def or_empty_def)

lemma refresh_orphan:
  assumes "refresh_cookie rq = Some t" and "t \<noteq> []" and "verifyRefresh c t = Some (sid, uid)"
    and "find_session sid uid s = Some row"
    and "s_revoked_at row = None" and "\<not> s_expires_at row < app_now w"
    and "sha256 c t = s_refresh_hash row" and "find_user uid s = None"
  shows "refresh c w rq s = (Inl UserNotFound, s)"
  using assms by (simp add: refresh_def truthy_def or_empty_def)

lemma refresh_rotates:
  assumes "refresh_cookie rq = Some t" and "t \<noteq> []" and "verifyRefresh c t = Some (sid, uid)"
    and "find_session sid uid s = Some row"
    and "s_revoked_at row = None" and "\<not> s_expires_at row < app_now w"
    and "sha256 c t = s_refresh_hash row" and "find_user uid s = Some u"
  shows "refresh c w rq s =
           (Inr \<lparr>rr_accessToken = signAccess c uid (u_role u),
                 rr_refreshCookie =
                   setRefreshCookie
                     (signRefresh c uid (ulid1 w) (ttlForRole c (u_role u) (s_remember row)))
                     (s_remember row) (ttlForRole c (u_role u) (s_remember row))\<rparr>,
            s\<lparr>sessions := replace_session sid (ulid1 w) (db_now w) (sessions s) @
                [new_session (ulid1 w) uid
                   (sha256 c (signRefresh c uid (ulid1 w)
                      (ttlForRole c (u_role u) (s_remember row))))
                   rq (s_remember row)
                   (db_now w + ttlForRole c (u_role u) (s_remember row) * 1000)]\<rparr>)"
  using assms by (simp add: refresh_def truthy_def or_empty_def Let_def)

lemma find_session_fresh:
  assumes "sid \<notin> s_id ` set (sessions s)"
  shows "find_session sid uid s = None"
  using assms unfolding find_session_def by (auto simp: find_None_iff)


text \<open>
  C2 (as amended). One call of \<open>refresh\<close> with a token that decodes to \<open>(sid, uid)\<close>:
  a missing, revoked or expired row gives \<open>InvalidSession\<close> and writes nothing; a live
  row whose hash differs is revoked and the call gives \<open>TokenReuse\<close>; a live row with
  the right hash whose user has no row gives \<open>UserNotFound\<close> and writes nothing;
  otherwise the old row is revoked with \<open>replaced_by\<close> the fresh id, a row for the fresh
  id is appended with the expiry \<open>ttlForRole (role, remember)\<close> seconds ahead, and the
  access token is issued.
\<close>

theorem refresh_decision:
  assumes "refresh_cookie rq = Some t" and "t \<noteq> []" and "verifyRefresh c t = Some (sid, uid)"
  shows
    "(find_session sid uid s = None \<longrightarrow> refresh c w rq s = (Inl InvalidSession, s)) \<and>
     (find_session sid uid s = Some row \<and>
        (s_revoked_at row \<noteq> None \<or> s_expires_at row < app_now w) \<longrightarrow>
          refresh c w rq s = (Inl InvalidSession, s)) \<and>
     (find_session sid uid s = Some row \<and> s_revoked_at row = None \<and>
        \<not> s_expires_at row < app_now w \<and> sha256 c t \<noteq> s_refresh_hash row \<longrightarrow>
          refresh c w rq s =
            (Inl TokenReuse, s\<lparr>sessions := revoke_session sid (db_now w) (sessions s)\<rparr>) \<and>
          find_session sid uid (snd (refresh c w rq s)) =
            Some (row\<lparr>s_revoked_at := Some (db_now w)\<rparr>)) \<and>
     (find_session sid uid s = Some row \<and> s_revoked_at row = None \<and>
        \<not> s_expires_at row < app_now w \<and> sha256 c t = s_refresh_hash row \<and>
        find_user uid s = None \<longrightarrow>
          refresh c w rq s = (Inl UserNotFound, s)) \<and>
     (find_session sid uid s = Some row \<and> s_revoked_at row = None \<and>
        \<not> s_expires_at row < app_now w \<and> sha256 c t = s_refresh_hash row \<and>
        find_user uid s = Some u \<longrightarrow>
          fst (refresh c w rq s) =
            Inr \<lparr>rr_accessToken = signAccess c uid (u_role u),
                 rr_refreshCookie =
                   setRefreshCookie
                     (signRefresh c uid (ulid1 w) (ttlForRole c (u_role u) (s_remember row)))
                     (s_remember row) (ttlForRole c (u_role u) (s_remember row))\<rparr> \<and>
          sessions (snd (refresh c w rq s)) =
            replace_session sid (ulid1 w) (db_now w) (sessions s) @
              [new_session (ulid1 w) uid
                 (sha256 c (signRefresh c uid (ulid1 w)
                    (ttlForRole c (u_role u) (s_remember row))))
                 rq (s_remember row)
                 (db_now w + ttlForRole c (u_role u) (s_remember row) * 1000)] \<and>
          find_session sid uid (snd (refresh c w rq s)) =
            Some (row\<lparr>s_revoked_at := Some (db_now w), s_replaced_by := Some (ulid1 w)\<rparr>) \<and>
          (ulid1 w \<notin> s_id ` set (sessions s) \<longrightarrow>
             find_session (ulid1 w) uid (snd (refresh c w rq s)) =
               Some (new_session (ulid1 w) uid
                 (sha256 c (signRefresh c uid (ulid1 w)
                    (ttlForRole c (u_role u) (s_remember row))))
                 rq (s_remember row)
                 (db_now w + ttlForRole c (u_role u) (s_remember row) * 1000))))"
proof (intro conjI impI; (elim conjE)?)
  show "refresh c w rq s = (Inl InvalidSession, s)" if "find_session sid uid s = None"
    using assms that by (rule refresh_absent)
next
  show "refresh c w rq s = (Inl InvalidSession, s)"
    if "find_session sid uid s = Some row"
      and "s_revoked_at row \<noteq> None \<or> s_expires_at row < app_now w"
    using assms that by (rule refresh_stale)
next
  assume h: "find_session sid uid s = Some row" "s_revoked_at row = None"
    "\<not> s_expires_at row < app_now w" "sha256 c t \<noteq> s_refresh_hash row"
  show e: "refresh c w rq s =
      (Inl TokenReuse, s\<lparr>sessions := revoke_session sid (db_now w) (sessions s)\<rparr>)"
    using assms h by (rule refresh_mismatch)
  have "s_id row = sid" using find_session_Some_id [OF h(1)] by simp
  then show "find_session sid uid (snd (refresh c w rq s)) =
      Some (row\<lparr>s_revoked_at := Some (db_now w)\<rparr>)"
    by (simp add: e find_session_revoke h(1))
next
  show "refresh c w rq s = (Inl UserNotFound, s)"
    if "find_session sid uid s = Some row" "s_revoked_at row = None"
      "\<not> s_expires_at row < app_now w" "sha256 c t = s_refresh_hash row"
      "find_user uid s = None"
    using assms that by (rule refresh_orphan)
next
  assume h: "find_session sid uid s = Some row" "s_revoked_at row = None"
    "\<not> s_expires_at row < app_now w" "sha256 c t = s_refresh_hash row"
    "find_user uid s = Some u"
  note e = refresh_rotates [OF assms h]
  have i: "s_id row = sid" using find_session_Some_id [OF h(1)] by simp
  show "fst (refresh c w rq s) =
      Inr \<lparr>rr_accessToken = signAccess c uid (u_role u),
           rr_refreshCookie =
             setRefreshCookie
               (signRefresh c uid (ulid1 w) (ttlForRole c (u_role u) (s_remember row)))
               (s_remember row) (ttlForRole c (u_role u) (s_remember row))\<rparr>"
    by (simp add: e)
  show "sessions (snd (refresh c w rq s)) =
      replace_session sid (ulid1 w) (db_now w) (sessions s) @
        [new_session (ulid1 w) uid
           (sha256 c (signRefresh c uid (ulid1 w)
              (ttlForRole c (u_role u) (s_remember row))))
           rq (s_remember row)
           (db_now w + ttlForRole c (u_role u) (s_remember row) * 1000)]"
    by (simp add: e)
  show "find_session sid uid (snd (refresh c w rq s)) =
      Some (row\<lparr>s_revoked_at := Some (db_now w), s_replaced_by := Some (ulid1 w)\<rparr>)"
    by (simp add: e find_session_replace h(1) i)
  show "find_session (ulid1 w) uid (snd (refresh c w rq s)) =
      Some (new_session (ulid1 w) uid
        (sha256 c (signRefresh c uid (ulid1 w)
           (ttlForRole c (u_role u) (s_remember row))))
        rq (s_remember row)
        (db_now w + ttlForRole c (u_role u) (s_remember row) * 1000))"
    if "ulid1 w \<notin> s_id ` set (sessions s)"
    using find_session_fresh [OF that, of uid]
    by (simp add: e find_session_replace new_session_def)
qed


theorem refresh_decision_witness:
  "refresh demo_caps demo_ctx demo_rq (demo_db\<lparr>sessions := []\<rparr>) =
     (Inl InvalidSession, demo_db\<lparr>sessions := []\<rparr>) \<and>
   fst (refresh demo_caps demo_ctx demo_rq
          (demo_db\<lparr>sessions := [demo_session\<lparr>s_refresh_hash := ''h:other''\<rparr>]\<rparr>)) =
     Inl TokenReuse \<and>
   find_session ''S0'' ''u1'' (snd (refresh demo_caps demo_ctx demo_rq demo_db)) =
     Some (demo_session\<lparr>s_revoked_at := Some 1000, s_replaced_by := Some ''S1''\<rparr>) \<and>
   map s_expires_at (sessions (snd (refresh demo_caps demo_ctx demo_rq demo_db))) =
     [5000, 31000]"
proof -
  have a: "refresh_cookie demo_rq = Some ''u1.S0''" and b: "''u1.S0'' \<noteq> []"
    and c: "verifyRefresh demo_caps ''u1.S0'' = Some (''S0'', ''u1'')"
    by (simp_all add: demo_defs)
  have p1: "find_session ''S0'' ''u1'' (demo_db\<lparr>sessions := []\<rparr>) = None"
    by (simp add: demo_defs lookup_defs)
  have p3: "find_session ''S0'' ''u1''
              (demo_db\<lparr>sessions := [demo_session\<lparr>s_refresh_hash := ''h:other''\<rparr>]\<rparr>) =
              Some (demo_session\<lparr>s_refresh_hash := ''h:other''\<rparr>) \<and>
            s_revoked_at (demo_session\<lparr>s_refresh_hash := ''h:other''\<rparr>) = None \<and>
            \<not> s_expires_at (demo_session\<lparr>s_refresh_hash := ''h:other''\<rparr>) < app_now demo_ctx \<and>
            sha256 demo_caps ''u1.S0'' \<noteq> s_refresh_hash (demo_session\<lparr>s_refresh_hash := ''h:other''\<rparr>)"
    by (simp add: demo_defs lookup_defs)
  have p5: "find_session ''S0'' ''u1'' demo_db = Some demo_session \<and>
            s_revoked_at demo_session = None \<and>
            \<not> s_expires_at demo_session < app_now demo_ctx \<and>
            sha256 demo_caps ''u1.S0'' = s_refresh_hash demo_session \<and>
            find_user ''u1'' demo_db = Some demo_user"
    by (simp add: demo_defs lookup_defs)
  note T = refresh_decision [OF a b c, where w = demo_ctx]
  have r1: "refresh demo_caps demo_ctx demo_rq (demo_db\<lparr>sessions := []\<rparr>) =
     (Inl InvalidSession, demo_db\<lparr>sessions := []\<rparr>)"
    using T [where s = "demo_db\<lparr>sessions := []\<rparr>"] p1 by blast
  have r3: "fst (refresh demo_caps demo_ctx demo_rq
          (demo_db\<lparr>sessions := [demo_session\<lparr>s_refresh_hash := ''h:other''\<rparr>]\<rparr>)) =
     Inl TokenReuse"
    using T [where s = "demo_db\<lparr>sessions := [demo_session\<lparr>s_refresh_hash := ''h:other''\<rparr>]\<rparr>"
               and row = "demo_session\<lparr>s_refresh_hash := ''h:other''\<rparr>"] p3
    by simp
  have r5: "find_session ''S0'' ''u1'' (snd (refresh demo_caps demo_ctx demo_rq demo_db)) =
      Some (demo_session\<lparr>s_revoked_at := Some (db_now demo_ctx),
                         s_replaced_by := Some (ulid1 demo_ctx)\<rparr>) \<and>
    sessions (snd (refresh demo_caps demo_ctx demo_rq demo_db)) =
      replace_session ''S0'' (ulid1 demo_ctx) (db_now demo_ctx) (sessions demo_db) @
        [new_session (ulid1 demo_ctx) ''u1''
           (sha256 demo_caps (signRefresh demo_caps ''u1'' (ulid1 demo_ctx)
              (ttlForRole demo_caps (u_role demo_user) (s_remember demo_session))))
           demo_rq (s_remember demo_session)
           (db_now demo_ctx +
              ttlForRole demo_caps (u_role demo_user) (s_remember demo_session) * 1000)]"
    using T [where s = demo_db and row = demo_session and u = demo_user] p5 by blast
  have r5': "find_session ''S0'' ''u1'' (snd (refresh demo_caps demo_ctx demo_rq demo_db)) =
      Some (demo_session\<lparr>s_revoked_at := Some 1000, s_replaced_by := Some ''S1''\<rparr>) \<and>
    map s_expires_at (sessions (snd (refresh demo_caps demo_ctx demo_rq demo_db))) = [5000, 31000]"
    using r5 by (simp add: demo_defs ttlForRole_def replace_session_def new_session_def)
  from r1 r3 r5' show ?thesis by blast
qed

text \<open>
  The claim as it was written has no case for a session whose user has no row: there the
  row is live and the hash right, and the call gives \<open>UserNotFound\<close> and rotates nothing.
\<close>

theorem refresh_orphan_counterexample:
  "find_session ''S0'' ''u1'' (demo_db\<lparr>users := []\<rparr>) = Some demo_session \<and>
   s_revoked_at demo_session = None \<and> \<not> s_expires_at demo_session < app_now demo_ctx \<and>
   sha256 demo_caps ''u1.S0'' = s_refresh_hash demo_session \<and>
   refresh demo_caps demo_ctx demo_rq (demo_db\<lparr>users := []\<rparr>) =
     (Inl UserNotFound, demo_db\<lparr>users := []\<rparr>)"
  by (simp add: demo_defs lookup_defs refresh_def)

section \<open>Password events and MFA disablement\<close>

lemma no_live_after_revoke_user_sessions:
  "filter (\<lambda>r. s_user_id r = uid \<and> s_revoked_at r = None) (revoke_user_sessions uid t rows) = []"
  unfolding revoke_user_sessions_def by (induction rows) auto

lemma no_live_after_revokeAllTrustedDevices:
  "filter (\<lambda>d. d_user_id d = uid \<and> d_revoked_at d = None)
     (revokeAllTrustedDevices False uid t rows) = []"
  unfolding revokeAllTrustedDevices_def by (induction rows) auto

lemma revokeAllTrustedDevices_outcome:
  "(if fails then revokeAllTrustedDevices fails uid t rows = rows
    else filter (\<lambda>d. d_user_id d = uid \<and> d_revoked_at d = None)
           (revokeAllTrustedDevices fails uid t rows) = [])"
  using no_live_after_revokeAllTrustedDevices [of uid t rows]
  by (simp add: revokeAllTrustedDevices_def)

lemma changePassword_success:
  assumes "changePassword c w uid old new s = (Inr x, s')"
  shows "sessions s' = revoke_user_sessions uid (db_now w) (sessions s) \<and>
         trusted_devices s' =
           revokeAllTrustedDevices (revoke_devices_fails w) uid (db_now w) (trusted_devices s)"
  using assms unfolding changePassword_def
  by (auto simp: Let_def split: option.splits if_splits)

lemma resetPasswordWithToken_success:
  assumes "resetPasswordWithToken c w tok new s = (Inr e, s')"
  shows "\<exists>r. find_reset (sha256 c tok) (db_now w) s = Some r \<and>
           sessions s' = revoke_user_sessions (pr_user_id r) (db_now w) (sessions s) \<and>
           trusted_devices s' =
             revokeAllTrustedDevices (revoke_devices_fails w) (pr_user_id r) (db_now w)
               (trusted_devices s)"
  using assms unfolding resetPasswordWithToken_def
  by (auto simp: Let_def split: option.splits if_splits)

lemma disableMfa_success:
  assumes "disableMfa c w uid pw code s = (Inr y, s')"
  shows "sessions s' = sessions s \<and>
         trusted_devices s' =
           revokeAllTrustedDevices (revoke_devices_fails w) uid (db_now w) (trusted_devices s) \<and>
         unused_codes uid h s' = []"
  using assms unfolding disableMfa_def unused_codes_def
  by (auto simp: Let_def filter_empty_conv split: option.splits if_splits sum.splits)

text \<open>
  C3 (as amended). After a successful \<open>changePassword\<close> or \<open>resetPasswordWithToken\<close> the
  user has no session with \<open>revoked_at\<close> unset, and no trusted device with \<open>revoked_at\<close>
  unset unless the store rejected the \<open>UPDATE\<close> of \<open>revokeAllTrustedDevices\<close>: that error
  is caught, the call still succeeds, and the trusted devices are what they were. After
  a successful \<open>disableMfa\<close> the same holds of the trusted devices, and the sessions are
  what they were.
\<close>

theorem security_event_cascade:
  "(changePassword c w uid old new s = (Inr x, s') \<longrightarrow>
      live_sessions uid s' = [] \<and>
      (if revoke_devices_fails w then trusted_devices s' = trusted_devices s
       else live_devices uid s' = [])) \<and>
   (resetPasswordWithToken c w tok new s = (Inr e, s') \<longrightarrow>
      (\<exists>r. find_reset (sha256 c tok) (db_now w) s = Some r \<and>
           live_sessions (pr_user_id r) s' = [] \<and>
           (if revoke_devices_fails w then trusted_devices s' = trusted_devices s
            else live_devices (pr_user_id r) s' = []))) \<and>
   (disableMfa c w uid pw code s = (Inr y, s') \<longrightarrow>
      sessions s' = sessions s \<and>
      (if revoke_devices_fails w then trusted_devices s' = trusted_devices s
       else live_devices uid s' = []))"
proof (intro conjI impI)
  assume "changePassword c w uid old new s = (Inr x, s')"
  from changePassword_success [OF this]
  show "live_sessions uid s' = []"
    and "if revoke_devices_fails w then trusted_devices s' = trusted_devices s
         else live_devices uid s' = []"
    using revokeAllTrustedDevices_outcome [of "revoke_devices_fails w" uid "db_now w" "trusted_devices s"]
    by (simp_all add: live_sessions_def live_devices_def no_live_after_revoke_user_sessions
          split: if_splits)
next
  assume "resetPasswordWithToken c w tok new s = (Inr e, s')"
  from resetPasswordWithToken_success [OF this] obtain r where
    r: "find_reset (sha256 c tok) (db_now w) s = Some r"
    and se: "sessions s' = revoke_user_sessions (pr_user_id r) (db_now w) (sessions s)"
    and de: "trusted_devices s' =
             revokeAllTrustedDevices (revoke_devices_fails w) (pr_user_id r) (db_now w)
               (trusted_devices s)"
    by blast
  have "live_sessions (pr_user_id r) s' = []"
    by (simp add: live_sessions_def se no_live_after_revoke_user_sessions)
  moreover have "if revoke_devices_fails w then trusted_devices s' = trusted_devices s
                 else live_devices (pr_user_id r) s' = []"
    using revokeAllTrustedDevices_outcome
            [of "revoke_devices_fails w" "pr_user_id r" "db_now w" "trusted_devices s"]
    by (simp add: live_devices_def de split: if_splits)
  ultimately show "\<exists>r. find_reset (sha256 c tok) (db_now w) s = Some r \<and>
           live_sessions (pr_user_id r) s' = [] \<and>
           (if revoke_devices_fails w then trusted_devices s' = trusted_devices s
            else live_devices (pr_user_id r) s' = [])"
    using r by blast
next
  assume "disableMfa c w uid pw code s = (Inr y, s')"
  from disableMfa_success [OF this]
  show "sessions s' = sessions s"
    and "if revoke_devices_fails w then trusted_devices s' = trusted_devices s
         else live_devices uid s' = []"
    using revokeAllTrustedDevices_outcome [of "revoke_devices_fails w" uid "db_now w" "trusted_devices s"]
    by (simp_all add: live_devices_def split: if_splits)
qed

lemmas op_defs =
  changePassword_def resetPasswordWithToken_def disableMfa_def password_ok_def totp_step_def
  six_digits_def is_digit_def set_password_def revoke_user_sessions_def
  revokeAllTrustedDevices_def use_reset_def clear_mfa_def live_sessions_def live_devices_def
  Let_def

lemma demo_changePassword:
  "changePassword demo_caps demo_ctx ''u1'' ''old-secret'' ''new-secret'' demo_db =
     (Inr (), snd (changePassword demo_caps demo_ctx ''u1'' ''old-secret'' ''new-secret'' demo_db))"
  by (simp add: demo_defs lookup_defs op_defs)

lemma demo_changePassword_update_rejected:
  "changePassword demo_caps (demo_ctx\<lparr>revoke_devices_fails := True\<rparr>)
     ''u1'' ''old-secret'' ''new-secret'' demo_db =
     (Inr (), snd (changePassword demo_caps (demo_ctx\<lparr>revoke_devices_fails := True\<rparr>)
                     ''u1'' ''old-secret'' ''new-secret'' demo_db))"
  by (simp add: demo_defs lookup_defs op_defs)

lemma demo_resetPassword:
  "resetPasswordWithToken demo_caps demo_ctx ''reset-token'' ''new-secret'' demo_db =
     (Inr (Some ''ann@example.com''),
      snd (resetPasswordWithToken demo_caps demo_ctx ''reset-token'' ''new-secret'' demo_db))"
  by (simp add: demo_defs lookup_defs op_defs)

lemma demo_disableMfa:
  "disableMfa demo_caps demo_ctx ''u1'' ''old-secret'' ''123456'' demo_db =
     (Inr (), snd (disableMfa demo_caps demo_ctx ''u1'' ''old-secret'' ''123456'' demo_db))"
  by (simp add: demo_defs lookup_defs op_defs)

theorem security_event_cascade_witness:
  "(live_sessions ''u1''
      (snd (changePassword demo_caps demo_ctx ''u1'' ''old-secret'' ''new-secret'' demo_db)) = [] \<and>
    live_devices ''u1''
      (snd (changePassword demo_caps demo_ctx ''u1'' ''old-secret'' ''new-secret'' demo_db)) = []) \<and>
   (live_sessions ''u1''
      (snd (changePassword demo_caps (demo_ctx\<lparr>revoke_devices_fails := True\<rparr>)
              ''u1'' ''old-secret'' ''new-secret'' demo_db)) = [] \<and>
    trusted_devices
      (snd (changePassword demo_caps (demo_ctx\<lparr>revoke_devices_fails := True\<rparr>)
              ''u1'' ''old-secret'' ''new-secret'' demo_db)) = trusted_devices demo_db) \<and>
   (\<exists>r. find_reset (sha256 demo_caps ''reset-token'') (db_now demo_ctx) demo_db = Some r \<and>
      live_sessions (pr_user_id r)
        (snd (resetPasswordWithToken demo_caps demo_ctx ''reset-token'' ''new-secret'' demo_db)) = [] \<and>
      live_devices (pr_user_id r)
        (snd (resetPasswordWithToken demo_caps demo_ctx ''reset-token'' ''new-secret'' demo_db)) = []) \<and>
   (sessions (snd (disableMfa demo_caps demo_ctx ''u1'' ''old-secret'' ''123456'' demo_db)) =
      sessions demo_db \<and>
    live_devices ''u1''
      (snd (disableMfa demo_caps demo_ctx ''u1'' ''old-secret'' ''123456'' demo_db)) = [])"
proof -
  have ok: "\<not> revoke_devices_fails demo_ctx"
    and bad: "revoke_devices_fails (demo_ctx\<lparr>revoke_devices_fails := True\<rparr>)"
    by (simp_all add: demo_ctx_def)
  show ?thesis
    using security_event_cascade [THEN conjunct1, THEN mp, OF demo_changePassword]
      security_event_cascade [THEN conjunct1, THEN mp, OF demo_changePassword_update_rejected]
      security_event_cascade [THEN conjunct2, THEN conjunct1, THEN mp, OF demo_resetPassword]
      security_event_cascade [THEN conjunct2, THEN conjunct2, THEN mp, OF demo_disableMfa]
      ok bad
    by (simp only: if_True if_False)
qed

text \<open>
  On the demo store a successful \<open>disableMfa\<close> leaves the user's session live; and a
  \<open>changePassword\<close> whose device \<open>UPDATE\<close> the store rejects succeeds and leaves the
  user's trusted device live.
\<close>

theorem disableMfa_keeps_sessions_counterexample:
  "fst (disableMfa demo_caps demo_ctx ''u1'' ''old-secret'' ''123456'' demo_db) = Inr () \<and>
   live_sessions ''u1'' (snd (disableMfa demo_caps demo_ctx ''u1'' ''old-secret'' ''123456'' demo_db))
     = [demo_session] \<and>
   fst (changePassword demo_caps (demo_ctx\<lparr>revoke_devices_fails := True\<rparr>)
          ''u1'' ''old-secret'' ''new-secret'' demo_db) = Inr () \<and>
   live_devices ''u1''
     (snd (changePassword demo_caps (demo_ctx\<lparr>revoke_devices_fails := True\<rparr>)
             ''u1'' ''old-secret'' ''new-secret'' demo_db)) = [demo_device]"
  by (simp add: demo_defs lookup_defs op_defs)

text \<open>
  C8 (as amended). \<open>changePassword\<close> whose old password verifies, and
  \<open>resetPasswordWithToken\<close> whose token finds a reset row, fail with \<open>PasswordReuse\<close>
  and leave the store as it was when the new password verifies against the current hash;
  \<open>changePassword\<close> writes nothing in that case whatever the old password is.
\<close>

theorem password_reuse_no_mutation:
  "(find_user uid s = Some u \<and> u_password_hash u = Some h \<and> h \<noteq> [] \<and>
      argon2_verify c h old \<and> argon2_verify c h new \<longrightarrow>
        changePassword c w uid old new s = (Inl PasswordReuse, s)) \<and>
   (find_user uid s = Some u \<and> u_password_hash u = Some h \<and> argon2_verify c h new \<longrightarrow>
        snd (changePassword c w uid old new s) = s) \<and>
   (find_reset (sha256 c tok) (db_now w) s = Some r \<and> find_user (pr_user_id r) s = Some u \<and>
      u_password_hash u = Some h \<and> h \<noteq> [] \<and> argon2_verify c h new \<longrightarrow>
        resetPasswordWithToken c w tok new s = (Inl PasswordReuse, s))"
  by (simp add: changePassword_def resetPasswordWithToken_def truthy_def or_empty_def Let_def)

theorem password_reuse_no_mutation_witness:
  "changePassword demo_caps demo_ctx ''u1'' ''old-secret'' ''old-secret'' demo_db =
     (Inl PasswordReuse, demo_db) \<and>
   snd (changePassword demo_caps demo_ctx ''u1'' ''a-wrong-guess'' ''old-secret'' demo_db) = demo_db \<and>
   resetPasswordWithToken demo_caps demo_ctx ''reset-token'' ''old-secret'' demo_db =
     (Inl PasswordReuse, demo_db)"
proof -
  have u: "find_user ''u1'' demo_db = Some demo_user"
    and h: "u_password_hash demo_user = Some ''pw:old-secret''"
    and v: "argon2_verify demo_caps ''pw:old-secret'' ''old-secret''"
    and r: "find_reset (sha256 demo_caps ''reset-token'') (db_now demo_ctx) demo_db = Some demo_reset"
    and ru: "find_user (pr_user_id demo_reset) demo_db = Some demo_user"
    by (simp_all add: demo_defs lookup_defs)
  note T = password_reuse_no_mutation [where c = demo_caps and w = demo_ctx and s = demo_db
      and u = demo_user and h = "''pw:old-secret''" and new = "''old-secret''"]
  have 1: "changePassword demo_caps demo_ctx ''u1'' ''old-secret'' ''old-secret'' demo_db =
     (Inl PasswordReuse, demo_db)"
    using T [where uid = "''u1''" and old = "''old-secret''", THEN conjunct1] u h v by simp
  have 2: "snd (changePassword demo_caps demo_ctx ''u1'' ''a-wrong-guess'' ''old-secret'' demo_db) = demo_db"
    using T [where uid = "''u1''" and old = "''a-wrong-guess''", THEN conjunct2, THEN conjunct1] u h v
    by simp
  have 3: "resetPasswordWithToken demo_caps demo_ctx ''reset-token'' ''old-secret'' demo_db =
     (Inl PasswordReuse, demo_db)"
    using T [where tok = "''reset-token''" and r = demo_reset, THEN conjunct2, THEN conjunct2] r ru h v
    by simp
  from 1 2 3 show ?thesis by blast
qed

text \<open>
  With a wrong old password the call fails with \<open>InvalidPassword\<close>, although the new
  password verifies against the current hash.
\<close>

theorem wrong_old_password_counterexample:
  "argon2_verify demo_caps (or_empty (u_password_hash demo_user)) ''old-secret'' \<and>
   changePassword demo_caps demo_ctx ''u1'' ''a-wrong-guess'' ''old-secret'' demo_db =
     (Inl InvalidPassword, demo_db)"
  by (simp add: demo_defs lookup_defs op_defs)

section \<open>Trusted devices and login\<close>

lemma legacy_cookie_never_accepted:
  assumes "dot_parts raw = (did, token)" and "\<not> (did \<noteq> [] \<and> truthy token)"
  shows "verifyTrustedDevice c raw = None"
  using assms by (auto simp: verifyTrustedDevice_def)

lemma validateTrustedCookie_rejects_unchanged:
  assumes "fst (validateTrustedCookie c w rq uid rl s) = False"
  shows "snd (validateTrustedCookie c w rq uid rl s) = s"
  using assms unfolding validateTrustedCookie_def
  by (auto simp: Let_def split: option.splits if_splits prod.splits)

lemma touch_device_keeps_revoked:
  "map d_revoked_at (touch_device did t rows) = map d_revoked_at rows"
  unfolding touch_device_def by (induction rows) auto

lemma validateTrustedCookie_keeps_revoked:
  "map d_revoked_at (trusted_devices (snd (validateTrustedCookie c w rq uid rl s))) =
     map d_revoked_at (trusted_devices s)"
  unfolding validateTrustedCookie_def
  by (auto simp: Let_def touch_device_keeps_revoked split: option.splits if_splits prod.splits)

lemma validateTrustedCookie_accepts:
  assumes "validateTrustedCookie c w rq uid rl s = (True, s')"
  shows "\<exists>did tok rec.
           dot_parts (or_empty (trusted_cookie rq)) = (did, Some tok) \<and> did \<noteq> [] \<and> tok \<noteq> [] \<and>
           find_device did s = Some rec \<and> d_user_id rec = uid \<and> d_revoked_at rec = None \<and>
           app_now w < d_expires_at rec \<and> sha256 c tok = d_token_hash rec \<and>
           ((rl = Some RoleAdmin \<or> trustedDeviceFpEnforceAll w) \<and> truthy (d_fingerprint rec) \<longrightarrow>
              d_fingerprint rec = Some (fingerprint_of c rq))"
proof -
  obtain did token where p: "dot_parts (or_empty (trusted_cookie rq)) = (did, token)"
    by (cases "dot_parts (or_empty (trusted_cookie rq))")
  show ?thesis
  proof (cases "did \<noteq> [] \<and> truthy token")
    case False
    from legacy_cookie_never_accepted [OF p False]
    have "verifyTrustedDevice c (or_empty (trusted_cookie rq)) = None" .
    with assms p False show ?thesis
      by (auto simp: validateTrustedCookie_def Let_def split: if_splits)
  next
    case True
    then obtain tok where tok: "token = Some tok" "tok \<noteq> []"
      by (cases token) (auto simp: truthy_def)
    from assms p True tok show ?thesis
      by (simp add: validateTrustedCookie_def Let_def or_empty_def truthy_def
            split: option.splits if_splits) auto
  qed
qed

text \<open>
  C7 (as amended). \<open>validateTrustedCookie\<close> answers true only if the cookie splits into a
  non-empty id and token, the device row exists, belongs to the user, is unrevoked and
  unexpired and the token hash matches, and, when enforcement applies (admin, or the flag)
  and the row stores a fingerprint, the recomputed fingerprint equals the stored one. A
  token-hash mismatch, or a fingerprint mismatch under enforcement, gives false and
  leaves the store as it was; no call changes a \<open>revoked_at\<close> of a device.
\<close>

theorem trusted_cookie_validation:
  "(validateTrustedCookie c w rq uid rl s = (True, s') \<longrightarrow>
      (\<exists>did tok rec.
         dot_parts (or_empty (trusted_cookie rq)) = (did, Some tok) \<and> did \<noteq> [] \<and> tok \<noteq> [] \<and>
         find_device did s = Some rec \<and> d_user_id rec = uid \<and> d_revoked_at rec = None \<and>
         app_now w < d_expires_at rec \<and> sha256 c tok = d_token_hash rec \<and>
         ((rl = Some RoleAdmin \<or> trustedDeviceFpEnforceAll w) \<and> truthy (d_fingerprint rec) \<longrightarrow>
            d_fingerprint rec = Some (fingerprint_of c rq)))) \<and>
   (dot_parts (or_empty (trusted_cookie rq)) = (did0, Some tok0) \<and> did0 \<noteq> [] \<and> tok0 \<noteq> [] \<and>
      find_device did0 s = Some rec0 \<and>
      (sha256 c tok0 \<noteq> d_token_hash rec0 \<or>
       ((rl = Some RoleAdmin \<or> trustedDeviceFpEnforceAll w) \<and> truthy (d_fingerprint rec0) \<and>
          d_fingerprint rec0 \<noteq> Some (fingerprint_of c rq))) \<longrightarrow>
        validateTrustedCookie c w rq uid rl s = (False, s)) \<and>
   map d_revoked_at (trusted_devices (snd (validateTrustedCookie c w rq uid rl s))) =
     map d_revoked_at (trusted_devices s)"
proof (intro conjI impI)
  assume "validateTrustedCookie c w rq uid rl s = (True, s')"
  then show "\<exists>did tok rec.
         dot_parts (or_empty (trusted_cookie rq)) = (did, Some tok) \<and> did \<noteq> [] \<and> tok \<noteq> [] \<and>
         find_device did s = Some rec \<and> d_user_id rec = uid \<and> d_revoked_at rec = None \<and>
         app_now w < d_expires_at rec \<and> sha256 c tok = d_token_hash rec \<and>
         ((rl = Some RoleAdmin \<or> trustedDeviceFpEnforceAll w) \<and> truthy (d_fingerprint rec) \<longrightarrow>
            d_fingerprint rec = Some (fingerprint_of c rq))"
    by (rule validateTrustedCookie_accepts)
next
  assume h: "dot_parts (or_empty (trusted_cookie rq)) = (did0, Some tok0) \<and> did0 \<noteq> [] \<and>
      tok0 \<noteq> [] \<and> find_device did0 s = Some rec0 \<and>
      (sha256 c tok0 \<noteq> d_token_hash rec0 \<or>
       ((rl = Some RoleAdmin \<or> trustedDeviceFpEnforceAll w) \<and> truthy (d_fingerprint rec0) \<and>
          d_fingerprint rec0 \<noteq> Some (fingerprint_of c rq)))"
  then have "or_empty (trusted_cookie rq) \<noteq> []"
    by (auto simp: dot_parts_def)
  with h show "validateTrustedCookie c w rq uid rl s = (False, s)"
    by (auto simp: validateTrustedCookie_def Let_def truthy_def or_empty_def)
next
  show "map d_revoked_at (trusted_devices (snd (validateTrustedCookie c w rq uid rl s))) =
     map d_revoked_at (trusted_devices s)"
    by (rule validateTrustedCookie_keeps_revoked)
qed

lemmas cookie_defs =
  validateTrustedCookie_def verifyTrustedDevice_def dot_parts_def fingerprint_of_def
  touch_device_def Let_def

lemma demo_trusted:
  "validateTrustedCookie demo_caps demo_ctx (demo_rq\<lparr>trusted_cookie := Some ''D0.tok0''\<rparr>)
     ''u1'' (Some RoleAdmin) demo_db =
   (True, demo_db\<lparr>trusted_devices := [demo_device\<lparr>d_last_used_at := Some 1000\<rparr>]\<rparr>)"
  by (simp add: demo_defs lookup_defs cookie_defs)

lemma demo_dot_parts: "dot_parts ''D0.tok0'' = (''D0'', Some ''tok0'')"
  by (simp add: dot_parts_def)

theorem trusted_cookie_validation_witness:
  "(\<exists>did tok rec.
      dot_parts (or_empty (trusted_cookie (demo_rq\<lparr>trusted_cookie := Some ''D0.tok0''\<rparr>))) =
        (did, Some tok) \<and> did \<noteq> [] \<and> tok \<noteq> [] \<and>
      find_device did demo_db = Some rec \<and> d_user_id rec = ''u1'' \<and> d_revoked_at rec = None \<and>
      app_now demo_ctx < d_expires_at rec \<and> sha256 demo_caps tok = d_token_hash rec \<and>
      ((Some RoleAdmin = Some RoleAdmin \<or> trustedDeviceFpEnforceAll demo_ctx) \<and>
         truthy (d_fingerprint rec) \<longrightarrow>
         d_fingerprint rec =
           Some (fingerprint_of demo_caps (demo_rq\<lparr>trusted_cookie := Some ''D0.tok0''\<rparr>)))) \<and>
   validateTrustedCookie demo_caps demo_ctx (demo_rq\<lparr>trusted_cookie := Some ''D0.wrong''\<rparr>)
     ''u1'' (Some RoleAdmin) demo_db = (False, demo_db)"
proof -
  have q: "dot_parts (or_empty (trusted_cookie (demo_rq\<lparr>trusted_cookie := Some ''D0.wrong''\<rparr>))) =
             (''D0'', Some ''wrong'') \<and> ''D0'' \<noteq> [] \<and> ''wrong'' \<noteq> [] \<and>
           find_device ''D0'' demo_db = Some demo_device \<and>
           (sha256 demo_caps ''wrong'' \<noteq> d_token_hash demo_device \<or>
            ((Some RoleAdmin = Some RoleAdmin \<or> trustedDeviceFpEnforceAll demo_ctx) \<and>
              truthy (d_fingerprint demo_device) \<and>
              d_fingerprint demo_device \<noteq>
                Some (fingerprint_of demo_caps (demo_rq\<lparr>trusted_cookie := Some ''D0.wrong''\<rparr>))))"
    by (simp add: demo_defs lookup_defs dot_parts_def)
  show ?thesis
    using trusted_cookie_validation [THEN conjunct1, THEN mp, OF demo_trusted]
      trusted_cookie_validation [THEN conjunct2, THEN conjunct1, THEN mp, OF q]
    by blast
qed

text \<open>
  An admin's device row without a stored fingerprint validates, although enforcement
  applies and the recomputed fingerprint is not the stored value.
\<close>

theorem null_fingerprint_counterexample:
  "validateTrustedCookie demo_caps demo_ctx (demo_rq\<lparr>trusted_cookie := Some ''D0.tok0''\<rparr>)
     ''u1'' (Some RoleAdmin) (demo_db\<lparr>trusted_devices := [demo_device\<lparr>d_fingerprint := None\<rparr>]\<rparr>) =
   (True, demo_db\<lparr>trusted_devices :=
             [demo_device\<lparr>d_fingerprint := None, d_last_used_at := Some 1000\<rparr>]\<rparr>) \<and>
   d_fingerprint (demo_device\<lparr>d_fingerprint := None\<rparr>) \<noteq>
     Some (fingerprint_of demo_caps (demo_rq\<lparr>trusted_cookie := Some ''D0.tok0''\<rparr>))"
  by (simp add: demo_defs lookup_defs cookie_defs)

text \<open>
  C6 (as amended). \<open>login\<close> answers \<open>InvalidCredentials\<close> when no user has the address,
  when the account is not active, and when the password is wrong; an active account with
  the right password and an unverified address gets the distinct \<open>EmailNotVerified\<close>.
  None of these writes to the store.
\<close>

theorem login_rejections:
  "(find_user_by_email email s = None \<longrightarrow>
      login c w email password remember rq s = (Inl InvalidCredentials, s)) \<and>
   (find_user_by_email email s = Some u \<and> u_status u \<noteq> ''active'' \<longrightarrow>
      login c w email password remember rq s = (Inl InvalidCredentials, s)) \<and>
   (find_user_by_email email s = Some u \<and> u_status u = ''active'' \<and>
      u_password_hash u = Some h \<and> \<not> argon2_verify c h password \<longrightarrow>
      login c w email password remember rq s = (Inl InvalidCredentials, s)) \<and>
   (find_user_by_email email s = Some u \<and> u_status u = ''active'' \<and>
      u_password_hash u = Some h \<and> argon2_verify c h password \<and> u_email_verified_at u = None \<longrightarrow>
      login c w email password remember rq s = (Inl EmailNotVerified, s))"
  by (simp add: login_def password_ok_def)

lemmas login_defs =
  login_def password_ok_def issue_session_def user_dto_of_def toLowerCase_def lower_char_def
  ttlForRole_def new_session_def setRefreshCookie_def

theorem login_rejections_witness:
  "login demo_caps demo_ctx ''bob@example.com'' ''old-secret'' False demo_rq demo_db =
     (Inl InvalidCredentials, demo_db) \<and>
   login demo_caps demo_ctx ''ann@example.com'' ''old-secret'' False demo_rq
     (demo_db\<lparr>users := [demo_user\<lparr>u_status := ''disabled'', u_mfa_enabled := False\<rparr>]\<rparr>) =
     (Inl InvalidCredentials,
      demo_db\<lparr>users := [demo_user\<lparr>u_status := ''disabled'', u_mfa_enabled := False\<rparr>]\<rparr>) \<and>
   login demo_caps demo_ctx ''ann@example.com'' ''a-wrong-guess'' False demo_rq demo_db =
     (Inl InvalidCredentials, demo_db) \<and>
   login demo_caps demo_ctx ''ann@example.com'' ''old-secret'' False demo_rq
     (demo_db\<lparr>users := [demo_user\<lparr>u_email_verified_at := None\<rparr>]\<rparr>) =
     (Inl EmailNotVerified, demo_db\<lparr>users := [demo_user\<lparr>u_email_verified_at := None\<rparr>]\<rparr>)"
proof -
  have 1: "find_user_by_email ''bob@example.com'' demo_db = None"
    by (simp add: demo_defs lookup_defs toLowerCase_def lower_char_def)
  have 2: "find_user_by_email ''ann@example.com''
             (demo_db\<lparr>users := [demo_user\<lparr>u_status := ''disabled'', u_mfa_enabled := False\<rparr>]\<rparr>) =
             Some (demo_user\<lparr>u_status := ''disabled'', u_mfa_enabled := False\<rparr>) \<and>
           u_status (demo_user\<lparr>u_status := ''disabled'', u_mfa_enabled := False\<rparr>) \<noteq> ''active''"
    by (simp add: demo_defs lookup_defs toLowerCase_def lower_char_def)
  have 3: "find_user_by_email ''ann@example.com'' demo_db = Some demo_user \<and>
           u_status demo_user = ''active'' \<and> u_password_hash demo_user = Some ''pw:old-secret'' \<and>
           \<not> argon2_verify demo_caps ''pw:old-secret'' ''a-wrong-guess''"
    by (simp add: demo_defs lookup_defs toLowerCase_def lower_char_def)
  have 4: "find_user_by_email ''ann@example.com''
             (demo_db\<lparr>users := [demo_user\<lparr>u_email_verified_at := None\<rparr>]\<rparr>) =
             Some (demo_user\<lparr>u_email_verified_at := None\<rparr>) \<and>
           u_status (demo_user\<lparr>u_email_verified_at := None\<rparr>) = ''active'' \<and>
           u_password_hash (demo_user\<lparr>u_email_verified_at := None\<rparr>) = Some ''pw:old-secret'' \<and>
           argon2_verify demo_caps ''pw:old-secret'' ''old-secret'' \<and>
           u_email_verified_at (demo_user\<lparr>u_email_verified_at := None\<rparr>) = None"
    by (simp add: demo_defs lookup_defs toLowerCase_def lower_char_def)
  show ?thesis
    using login_rejections [THEN conjunct1, THEN mp, OF 1]
      login_rejections [THEN conjunct2, THEN conjunct1, THEN mp, OF 2]
      login_rejections [THEN conjunct2, THEN conjunct2, THEN conjunct1, THEN mp, OF 3]
      login_rejections [THEN conjunct2, THEN conjunct2, THEN conjunct2, THEN mp, OF 4]
    by blast
qed

text \<open>A disabled account gets the same \<open>InvalidCredentials\<close> as an unknown address.\<close>

theorem disabled_account_counterexample:
  "u_status (demo_user\<lparr>u_status := ''disabled'', u_mfa_enabled := False\<rparr>) \<noteq> ''active'' \<and>
   login demo_caps demo_ctx ''ann@example.com'' ''old-secret'' False demo_rq
     (demo_db\<lparr>users := [demo_user\<lparr>u_status := ''disabled'', u_mfa_enabled := False\<rparr>]\<rparr>) =
   (Inl InvalidCredentials,
    demo_db\<lparr>users := [demo_user\<lparr>u_status := ''disabled'', u_mfa_enabled := False\<rparr>]\<rparr>) \<and>
   login demo_caps demo_ctx ''bob@example.com'' ''old-secret'' False demo_rq demo_db =
     (Inl InvalidCredentials, demo_db)"
  by (simp add: demo_defs lookup_defs login_defs)

text \<open>
  C4 (as amended). For a user with MFA enabled whose trusted-device validation does not
  succeed, \<open>login\<close> never returns tokens; when the account is active, the password right
  and the address verified, it appends an \<open>MfaLoginChallenge\<close> row carrying the remember
  flag and answers with the challenge id and its expiry.
\<close>

theorem mfa_login_requires_second_factor:
  assumes "find_user_by_email email s = Some u" and "u_mfa_enabled u"
    and "fst (validateTrustedCookie c w rq (u_id u) (Some (u_role u)) s) = False"
  shows "\<not> is_tokens (fst (login c w email password remember rq s)) \<and>
         (u_status u = ''active'' \<and> u_password_hash u = Some h \<and> argon2_verify c h password \<and>
            u_email_verified_at u \<noteq> None \<longrightarrow>
              login c w email password remember rq s =
                (Inr (MfaChallenge (ulid1 w) (db_now w + MFA_LOGIN_TTL_SEC c * 1000)),
                 s\<lparr>mfa_login_challenges := mfa_login_challenges s @
                     [\<lparr>ml_id = ulid1 w, ml_user_id = u_id u, ml_remember = remember,
                       ml_user_agent = user_agent rq, ml_ip = ip rq,
                       ml_expires_at = db_now w + MFA_LOGIN_TTL_SEC c * 1000,
                       ml_consumed_at = None\<rparr>]\<rparr>))"
proof -
  obtain s1 where v: "validateTrustedCookie c w rq (u_id u) (Some (u_role u)) s = (False, s1)"
    using assms(3) by (cases "validateTrustedCookie c w rq (u_id u) (Some (u_role u)) s") simp
  have "s1 = s"
    using validateTrustedCookie_rejects_unchanged [OF assms(3)] v by simp
  with v have v': "validateTrustedCookie c w rq (u_id u) (Some (u_role u)) s = (False, s)"
    by simp
  show ?thesis
    using assms(1,2) v'
    by (auto simp: login_def password_ok_def Let_def split: option.splits)
qed

theorem mfa_login_requires_second_factor_witness:
  "\<not> is_tokens (fst (login demo_caps demo_ctx ''Ann@Example.com'' ''old-secret'' True demo_rq demo_db)) \<and>
   login demo_caps demo_ctx ''Ann@Example.com'' ''old-secret'' True demo_rq demo_db =
     (Inr (MfaChallenge ''S1'' 6000),
      demo_db\<lparr>mfa_login_challenges := mfa_login_challenges demo_db @
         [\<lparr>ml_id = ''S1'', ml_user_id = ''u1'', ml_remember = True,
           ml_user_agent = Some ''ua'', ml_ip = Some ''10.0.0.1'',
           ml_expires_at = 6000, ml_consumed_at = None\<rparr>]\<rparr>)"
proof -
  have a: "find_user_by_email ''Ann@Example.com'' demo_db = Some demo_user"
    and b: "u_mfa_enabled demo_user"
    and c: "fst (validateTrustedCookie demo_caps demo_ctx demo_rq (u_id demo_user)
                   (Some (u_role demo_user)) demo_db) = False"
    by (simp_all add: demo_defs lookup_defs cookie_defs toLowerCase_def lower_char_def char_of_def bit_0)
  have d: "u_status demo_user = ''active'' \<and> u_password_hash demo_user = Some ''pw:old-secret'' \<and>
           argon2_verify demo_caps ''pw:old-secret'' ''old-secret'' \<and>
           u_email_verified_at demo_user \<noteq> None"
    by (simp add: demo_defs)
  note T = mfa_login_requires_second_factor [OF a b c, where password = "''old-secret''"
      and remember = True and h = "''pw:old-secret''"]
  have "login demo_caps demo_ctx ''Ann@Example.com'' ''old-secret'' True demo_rq demo_db =
      (Inr (MfaChallenge (ulid1 demo_ctx) (db_now demo_ctx + MFA_LOGIN_TTL_SEC demo_caps * 1000)),
       demo_db\<lparr>mfa_login_challenges := mfa_login_challenges demo_db @
           [\<lparr>ml_id = ulid1 demo_ctx, ml_user_id = u_id demo_user, ml_remember = True,
             ml_user_agent = user_agent demo_rq, ml_ip = ip demo_rq,
             ml_expires_at = db_now demo_ctx + MFA_LOGIN_TTL_SEC demo_caps * 1000,
             ml_consumed_at = None\<rparr>]\<rparr>)"
    using T d by blast
  then have "login demo_caps demo_ctx ''Ann@Example.com'' ''old-secret'' True demo_rq demo_db =
     (Inr (MfaChallenge ''S1'' 6000),
      demo_db\<lparr>mfa_login_challenges := mfa_login_challenges demo_db @
         [\<lparr>ml_id = ''S1'', ml_user_id = ''u1'', ml_remember = True,
           ml_user_agent = Some ''ua'', ml_ip = Some ''10.0.0.1'',
           ml_expires_at = 6000, ml_consumed_at = None\<rparr>]\<rparr>)"
    by (simp add: demo_caps_def demo_ctx_def demo_rq_def demo_user_def)
  with T show ?thesis by blast
qed

text \<open>
  A disabled account with MFA enabled and the right password is turned away with
  \<open>InvalidCredentials\<close>; no challenge row is created.
\<close>

theorem disabled_mfa_user_counterexample:
  "find_user_by_email ''ann@example.com'' (demo_db\<lparr>users := [demo_user\<lparr>u_status := ''disabled''\<rparr>]\<rparr>)
     = Some (demo_user\<lparr>u_status := ''disabled''\<rparr>) \<and>
   u_mfa_enabled (demo_user\<lparr>u_status := ''disabled''\<rparr>) \<and>
   argon2_verify demo_caps ''pw:old-secret'' ''old-secret'' \<and>
   fst (validateTrustedCookie demo_caps demo_ctx demo_rq ''u1'' (Some RoleUser)
          (demo_db\<lparr>users := [demo_user\<lparr>u_status := ''disabled''\<rparr>]\<rparr>)) = False \<and>
   login demo_caps demo_ctx ''ann@example.com'' ''old-secret'' True demo_rq
     (demo_db\<lparr>users := [demo_user\<lparr>u_status := ''disabled''\<rparr>]\<rparr>) =
   (Inl InvalidCredentials, demo_db\<lparr>users := [demo_user\<lparr>u_status := ''disabled''\<rparr>]\<rparr>)"
  by (simp add: demo_defs lookup_defs login_defs cookie_defs)

section \<open>Backup codes at login\<close>

lemma use_backup_keeps_spent:
  assumes "filter (\<lambda>b. bc_user_id b = uid \<and> bc_code_hash b = h \<and> bc_used_at b = None) rows = []"
  shows "filter (\<lambda>b. bc_user_id b = uid \<and> bc_code_hash b = h \<and> bc_used_at b = None)
           (use_backup bid t rows) = []"
  using assms unfolding use_backup_def by (induction rows) (auto split: if_splits)

lemma retire_keeps_spent:
  assumes "filter (\<lambda>b. bc_user_id b = uid \<and> bc_code_hash b = h \<and> bc_used_at b = None) rows = []"
  shows "filter (\<lambda>b. bc_user_id b = uid \<and> bc_code_hash b = h \<and> bc_used_at b = None)
           (retire_backup_codes uid' t rows) = []"
  using assms unfolding retire_backup_codes_def by (induction rows) (auto split: if_splits)

lemma mint_keeps_spent:
  assumes "filter (\<lambda>b. bc_user_id b = uid \<and> bc_code_hash b = h \<and> bc_used_at b = None) rows = []"
    and "\<not> (uid' = uid \<and> h \<in> set hashes)"
  shows "filter (\<lambda>b. bc_user_id b = uid \<and> bc_code_hash b = h \<and> bc_used_at b = None)
           (mint_backup_codes uid' hashes rows) = []"
  using assms unfolding mint_backup_codes_def
  by (auto simp: Let_def filter_empty_conv dest: set_zip_rightD)

lemma filter_keeps_spent:
  assumes "filter P rows = []"
  shows "filter P (filter Q rows) = []"
  using assms by (induction rows) (auto split: if_splits)

lemma use_backup_spends:
  assumes "find (\<lambda>b. bc_user_id b = uid \<and> bc_code_hash b = h \<and> bc_used_at b = None) rows = Some b"
    and "length (filter (\<lambda>b. bc_user_id b = uid \<and> bc_code_hash b = h \<and> bc_used_at b = None) rows) \<le> 1"
  shows "filter (\<lambda>b. bc_user_id b = uid \<and> bc_code_hash b = h \<and> bc_used_at b = None)
           (use_backup (bc_id b) t rows) = []"
  using assms
proof (induction rows)
  case Nil
  then show ?case by simp
next
  case (Cons x xs)
  show ?case
  proof (cases "bc_user_id x = uid \<and> bc_code_hash x = h \<and> bc_used_at x = None")
    case True
    with Cons.prems have b: "b = x"
      and rest: "filter (\<lambda>b. bc_user_id b = uid \<and> bc_code_hash b = h \<and> bc_used_at b = None) xs = []"
      by auto
    from use_backup_keeps_spent [OF rest] b show ?thesis
      by (simp add: use_backup_def)
  next
    case False
    with Cons show ?thesis
      by (auto simp: use_backup_def)
  qed
qed

lemma spent_no_backup:
  "unused_codes uid h s = [] \<Longrightarrow> find_backup uid h s = None"
  unfolding unused_codes_def find_backup_def
  by (auto simp: find_None_iff filter_empty_conv)

lemma validateTrustedCookie_codes:
  assumes "validateTrustedCookie c w rq uid rl s = (b, s1)"
  shows "mfa_backup_codes s1 = mfa_backup_codes s"
  using assms unfolding validateTrustedCookie_def
  by (auto simp: Let_def split: option.splits if_splits prod.splits)

lemma login_codes:
  "mfa_backup_codes (snd (login c w email pw remember rq s)) = mfa_backup_codes s"
  unfolding login_def
  by (auto simp: Let_def issue_session_def split: option.splits if_splits prod.splits
        dest: validateTrustedCookie_codes)

lemma refresh_codes:
  "mfa_backup_codes (snd (refresh c w rq s)) = mfa_backup_codes s"
  unfolding refresh_def
  by (auto simp: Let_def split: option.splits if_splits prod.splits)

lemma requireAuth_codes:
  "mfa_backup_codes (snd (requireAuth c w rq s)) = mfa_backup_codes s"
  unfolding requireAuth_def authenticateViaRefreshCookie_def
  by (auto simp: Let_def split: option.splits if_splits prod.splits sum.splits)

lemma changePassword_codes:
  "mfa_backup_codes (snd (changePassword c w uid old new s)) = mfa_backup_codes s"
  unfolding changePassword_def
  by (auto simp: Let_def split: option.splits if_splits)

lemma resetPasswordWithToken_codes:
  "mfa_backup_codes (snd (resetPasswordWithToken c w tok new s)) = mfa_backup_codes s"
  unfolding resetPasswordWithToken_def
  by (auto simp: Let_def split: option.splits if_splits)

lemma verifyMfaLogin_codes_shape:
  "mfa_backup_codes (snd (verifyMfaLogin c w cid code rd rq s)) = mfa_backup_codes s \<or>
   (\<exists>bid t. mfa_backup_codes (snd (verifyMfaLogin c w cid code rd rq s)) =
              use_backup bid t (mfa_backup_codes s))"
  unfolding verifyMfaLogin_def
  by (auto simp: Let_def issue_session_def createTrustedDevice_def
        split: option.splits prod.splits sum.splits if_splits)

lemma disableMfa_codes_shape:
  "mfa_backup_codes (snd (disableMfa c w uid pw code s)) = mfa_backup_codes s \<or>
   (\<exists>Q. mfa_backup_codes (snd (disableMfa c w uid pw code s)) = filter Q (mfa_backup_codes s)) \<or>
   (\<exists>Q bid t. mfa_backup_codes (snd (disableMfa c w uid pw code s)) =
                 filter Q (use_backup bid t (mfa_backup_codes s)))"
  unfolding disableMfa_def
  by (auto simp: Let_def split: option.splits prod.splits sum.splits if_splits)

lemma verifyMfaLogin_keeps_spent:
  assumes "unused_codes uid h s = []"
  shows "unused_codes uid h (snd (verifyMfaLogin c w cid code rd rq s)) = []"
  using verifyMfaLogin_codes_shape [of c w cid code rd rq s] assms
  unfolding unused_codes_def
  by (auto simp: use_backup_keeps_spent)

lemma disableMfa_keeps_spent:
  assumes "unused_codes uid h s = []"
  shows "unused_codes uid h (snd (disableMfa c w uid' pw code s)) = []"
  using disableMfa_codes_shape [of c w uid' pw code s] assms
  unfolding unused_codes_def
  by (auto simp del: filter_filter simp: use_backup_keeps_spent filter_keeps_spent)

lemma regenerateBackupCodes_keeps_spent:
  assumes "unused_codes uid h s = []" and "\<not> (uid' = uid \<and> h \<in> set (gen_hashes w))"
  shows "unused_codes uid h (snd (regenerateBackupCodes w uid' s)) = []"
  using assms unfolding unused_codes_def regenerateBackupCodes_def
  by (simp add: mint_keeps_spent retire_keeps_spent)

lemma verifyMfaSetup_codes_shape:
  "mfa_backup_codes (snd (verifyMfaSetup c w uid cid code s)) = mfa_backup_codes s \<or>
   mfa_backup_codes (snd (verifyMfaSetup c w uid cid code s)) =
     mint_backup_codes uid (gen_hashes w) (mfa_backup_codes s)"
  unfolding verifyMfaSetup_def
  by (auto simp: Let_def split: option.splits if_splits)

lemma verifyMfaSetup_keeps_spent:
  assumes "unused_codes uid h s = []" and "\<not> (uid' = uid \<and> h \<in> set (gen_hashes w))"
  shows "unused_codes uid h (snd (verifyMfaSetup c w uid' cid code s)) = []"
  using verifyMfaSetup_codes_shape [of c w uid' cid code s] assms
  unfolding unused_codes_def
  by (auto simp: mint_keeps_spent)

lemma run_call_keeps_spent:
  assumes "unused_codes uid h s = []" and "\<not> mints uid h cl"
  shows "unused_codes uid h (run_call cl s) = []"
proof (cases cl)
  case (LoginCall c w email pw remember rq)
  then show ?thesis using assms(1) by (simp add: unused_codes_def login_codes)
next
  case (RefreshCall c w rq)
  then show ?thesis using assms(1) by (simp add: unused_codes_def refresh_codes)
next
  case (RequireAuthCall c w rq)
  then show ?thesis using assms(1) by (simp add: unused_codes_def requireAuth_codes)
next
  case (ChangePasswordCall c w uid' old new)
  then show ?thesis using assms(1) by (simp add: unused_codes_def changePassword_codes)
next
  case (ResetPasswordCall c w tok new)
  then show ?thesis using assms(1) by (simp add: unused_codes_def resetPasswordWithToken_codes)
next
  case (VerifyLoginCall c w cid code rd rq)
  then show ?thesis using assms(1) by (simp add: verifyMfaLogin_keeps_spent)
next
  case (DisableMfaCall c w uid' pw code)
  then show ?thesis using assms(1) by (simp add: disableMfa_keeps_spent)
next
  case (RegenerateCall w uid')
  then show ?thesis using assms by (simp add: regenerateBackupCodes_keeps_spent)
next
  case (VerifySetupCall c w uid' cid code)
  then show ?thesis using assms by (simp add: verifyMfaSetup_keeps_spent)
qed

lemma run_calls_keeps_spent:
  "unused_codes uid h s = [] \<Longrightarrow> \<not> remints uid h calls \<Longrightarrow>
     unused_codes uid h (run_calls calls s) = []"
proof (induction calls arbitrary: s)
  case Nil
  then show ?case by simp
next
  case (Cons cl calls)
  from Cons.prems(2) have a: "\<not> mints uid h cl" and b: "\<not> remints uid h calls"
    by (simp_all add: remints_def)
  have "unused_codes uid h (run_call cl s) = []"
    using Cons.prems(1) a by (rule run_call_keeps_spent)
  then show ?case
    using Cons.IH b by simp
qed

lemma verifyMfaLogin_spends:
  assumes "verifyMfaLogin c w cid code rd rq s = (Inr out, s1)" and "\<not> six_digits code"
    and "find_challenge cid s = Some (m, u)"
    and "length (unused_codes (ml_user_id m) (backupHash c (trim (toUpperCase code))) s) \<le> 1"
  shows "unused_codes (ml_user_id m) (backupHash c (trim (toUpperCase code))) s1 = []"
proof -
  let ?h = "backupHash c (trim (toUpperCase code))"
  from assms(1,2,3) obtain b where
    f: "find_backup (ml_user_id m) ?h s = Some b"
    and codes: "mfa_backup_codes s1 = use_backup (bc_id b) (db_now w) (mfa_backup_codes s)"
    unfolding verifyMfaLogin_def
    by (auto simp: Let_def totp_step_def issue_session_def createTrustedDevice_def
          split: option.splits prod.splits sum.splits if_splits)
  show ?thesis
    using use_backup_spends [of "ml_user_id m" ?h "mfa_backup_codes s" b "db_now w"] f assms(4)
    unfolding unused_codes_def find_backup_def codes by simp
qed

lemma disableMfa_spends:
  assumes "disableMfa c w uid pw code s = (Inr y, s1)"
  shows "unused_codes uid h s1 = []"
  using assms unfolding disableMfa_def unused_codes_def
  by (auto simp: Let_def filter_empty_conv split: option.splits if_splits sum.splits)

lemma spent_code_rejected:
  assumes "unused_codes (ml_user_id m) (backupHash c (trim (toUpperCase code))) s = []"
    and "\<not> six_digits code"
    and "find_challenge cid s = Some (m, u)"
    and "ml_consumed_at m = None" and "\<not> ml_expires_at m < app_now w"
  shows "verifyMfaLogin c w cid code rd rq s = (Inl InvalidCode, s)"
  using spent_no_backup [OF assms(1)] assms(2-)
  by (simp add: verifyMfaLogin_def totp_step_def Let_def)

lemma verifyMfaLogin_failure_unchanged:
  assumes "fst (verifyMfaLogin c w cid code rd rq s) = Inl e"
  shows "snd (verifyMfaLogin c w cid code rd rq s) = s"
  using assms unfolding verifyMfaLogin_def
  by (auto simp: Let_def split: option.splits prod.splits sum.splits if_splits)

text \<open>
  C9 (as amended). Take a backup code, not of the six-digit form, that a login
  verification spent while at most one unused row of the user held it, or any code after
  a successful \<open>disableMfa\<close> of the user. Whatever calls ran in between, as long as no
  batch minted for the user since holds the code's hash again, every later verification
  that presents the code, in any spelling with the same upper-cased, trimmed form and
  under the same backup-code HMAC, on a challenge of that user that is unconsumed and
  unexpired, is turned away with \<open>InvalidCode\<close>. And a verification that fails leaves
  the store, the challenge included, as it was, so the caller may try again until the
  challenge expires.
\<close>

theorem backup_code_single_use:
  "(verifyMfaLogin c w cid code rd rq s = (Inr out, s1) \<and> \<not> six_digits code \<and>
      find_challenge cid s = Some (m, u) \<and>
      length (unused_codes (ml_user_id m) (backupHash c (trim (toUpperCase code))) s) \<le> 1 \<and>
      \<not> remints (ml_user_id m) (backupHash c (trim (toUpperCase code))) calls \<and>
      trim (toUpperCase code') = trim (toUpperCase code) \<and> \<not> six_digits code' \<and>
      find_challenge cid' (run_calls calls s1) = Some (m', u') \<and>
      ml_user_id m' = ml_user_id m \<and> ml_consumed_at m' = None \<and>
      \<not> ml_expires_at m' < app_now w' \<and> backupHmac c' = backupHmac c \<longrightarrow>
        verifyMfaLogin c' w' cid' code' rd' rq' (run_calls calls s1) =
          (Inl InvalidCode, run_calls calls s1)) \<and>
   (disableMfa c w uid pw code s = (Inr y, s1) \<and> \<not> six_digits code' \<and>
      \<not> remints uid (backupHash c' (trim (toUpperCase code'))) calls \<and>
      find_challenge cid' (run_calls calls s1) = Some (m', u') \<and>
      ml_user_id m' = uid \<and> ml_consumed_at m' = None \<and> \<not> ml_expires_at m' < app_now w' \<longrightarrow>
        verifyMfaLogin c' w' cid' code' rd' rq' (run_calls calls s1) =
          (Inl InvalidCode, run_calls calls s1)) \<and>
   (fst (verifyMfaLogin c w cid code rd rq s) = Inl e \<longrightarrow>
      snd (verifyMfaLogin c w cid code rd rq s) = s)"
proof (intro conjI impI; (elim conjE)?)
  assume a: "verifyMfaLogin c w cid code rd rq s = (Inr out, s1)" "\<not> six_digits code"
    "find_challenge cid s = Some (m, u)"
    "length (unused_codes (ml_user_id m) (backupHash c (trim (toUpperCase code))) s) \<le> 1"
    and n: "\<not> remints (ml_user_id m) (backupHash c (trim (toUpperCase code))) calls"
    and k: "trim (toUpperCase code') = trim (toUpperCase code)" "\<not> six_digits code'"
    and l: "find_challenge cid' (run_calls calls s1) = Some (m', u')"
    "ml_user_id m' = ml_user_id m" "ml_consumed_at m' = None"
    "\<not> ml_expires_at m' < app_now w'" "backupHmac c' = backupHmac c"
  have "unused_codes (ml_user_id m) (backupHash c (trim (toUpperCase code))) s1 = []"
    using a by (rule verifyMfaLogin_spends)
  then have "unused_codes (ml_user_id m) (backupHash c (trim (toUpperCase code)))
               (run_calls calls s1) = []"
    using n by (rule run_calls_keeps_spent)
  then have "unused_codes (ml_user_id m') (backupHash c' (trim (toUpperCase code')))
               (run_calls calls s1) = []"
    using l(2,5) k(1) by (simp add: backupHash_def)
  then show "verifyMfaLogin c' w' cid' code' rd' rq' (run_calls calls s1) =
          (Inl InvalidCode, run_calls calls s1)"
    using k(2) l(1,3,4) by (rule spent_code_rejected)
next
  assume a: "disableMfa c w uid pw code s = (Inr y, s1)" "\<not> six_digits code'"
    and n: "\<not> remints uid (backupHash c' (trim (toUpperCase code'))) calls"
    and l: "find_challenge cid' (run_calls calls s1) = Some (m', u')"
    "ml_user_id m' = uid" "ml_consumed_at m' = None" "\<not> ml_expires_at m' < app_now w'"
  have "unused_codes uid (backupHash c' (trim (toUpperCase code'))) s1 = []"
    using a(1) by (rule disableMfa_spends)
  then have "unused_codes uid (backupHash c' (trim (toUpperCase code')))
               (run_calls calls s1) = []"
    using n by (rule run_calls_keeps_spent)
  then have "unused_codes (ml_user_id m') (backupHash c' (trim (toUpperCase code')))
               (run_calls calls s1) = []"
    using l(2) by simp
  then show "verifyMfaLogin c' w' cid' code' rd' rq' (run_calls calls s1) =
          (Inl InvalidCode, run_calls calls s1)"
    using a(2) l(1,3,4) by (rule spent_code_rejected)
next
  assume "fst (verifyMfaLogin c w cid code rd rq s) = Inl e"
  then show "snd (verifyMfaLogin c w cid code rd rq s) = s"
    by (rule verifyMfaLogin_failure_unchanged)
qed

lemmas mfa_defs =
  verifyMfaLogin_def disableMfa_def totp_step_def six_digits_def is_digit_def backupHash_def
  toUpperCase_def upper_char_def trim_def is_space_def pretty_code_def char_of_def bit_0
  issue_session_def createTrustedDevice_def user_dto_of_def ttlForRole_def new_session_def
  setRefreshCookie_def use_backup_def consume_challenge_def clear_mfa_def revokeAllTrustedDevices_def
  password_ok_def unused_codes_def fingerprint_of_def Let_def

lemma demo_backup_login:
  "verifyMfaLogin demo_caps demo_ctx ''challenge-0'' ''abcd-efgh'' False demo_rq demo_db =
     (Inr (AuthOutput ''access:u1'' \<lparr>ck_value = ''u1.S1'', ck_maxAge = Some 40000\<rparr> None
             (user_dto_of demo_user True)),
      demo_db\<lparr>sessions := [demo_session,
                  \<lparr>s_id = ''S1'', s_user_id = ''u1'', s_refresh_hash = ''h:u1.S1'',
                   s_user_agent = Some ''ua'', s_ip = Some ''10.0.0.1'', s_remember = True,
                   s_expires_at = 41000, s_revoked_at = None, s_replaced_by = None\<rparr>],
              mfa_login_challenges :=
                 [demo_challenge\<lparr>ml_consumed_at := Some 1000\<rparr>, demo_challenge\<lparr>ml_id := ''challenge-1''\<rparr>],
              mfa_backup_codes := [demo_backup\<lparr>bc_used_at := Some 1000\<rparr>]\<rparr>)"
  by (simp add: demo_defs lookup_defs mfa_defs)


lemma demo_db2_eq:
  "demo_db2 =
      demo_db\<lparr>sessions := [demo_session,
                  \<lparr>s_id = ''S1'', s_user_id = ''u1'', s_refresh_hash = ''h:u1.S1'',
                   s_user_agent = Some ''ua'', s_ip = Some ''10.0.0.1'', s_remember = True,
                   s_expires_at = 41000, s_revoked_at = None, s_replaced_by = None\<rparr>],
              mfa_login_challenges :=
                 [demo_challenge\<lparr>ml_consumed_at := Some 1000\<rparr>, demo_challenge\<lparr>ml_id := ''challenge-1''\<rparr>],
              mfa_backup_codes := [demo_backup\<lparr>bc_used_at := Some 1000\<rparr>]\<rparr>"
  by (simp add: demo_db2_def demo_backup_login)

lemma demo_disable_with_backup:
  "disableMfa demo_caps demo_ctx ''u1'' ''old-secret'' ''abcdefgh'' demo_db =
     (Inr (),
      demo_db\<lparr>users := [demo_user\<lparr>u_mfa_enabled := False, u_mfa_secret_enc := None\<rparr>],
              mfa_backup_codes := [],
              trusted_devices := [demo_device\<lparr>d_revoked_at := Some 1000\<rparr>]\<rparr>)"
  by (simp add: demo_defs lookup_defs mfa_defs)

lemma demo_disable_with_code:
  "disableMfa demo_caps demo_ctx ''u1'' ''old-secret'' ''abcd-efgh'' demo_db =
     (Inr (),
      demo_db\<lparr>users := [demo_user\<lparr>u_mfa_enabled := False, u_mfa_secret_enc := None\<rparr>],
              mfa_backup_codes := [],
              trusted_devices := [demo_device\<lparr>d_revoked_at := Some 1000\<rparr>]\<rparr>)"
  by (simp add: demo_defs lookup_defs mfa_defs)

lemma demo_db3_eq:
  "demo_db3 =
      demo_db\<lparr>users := [demo_user\<lparr>u_mfa_enabled := False, u_mfa_secret_enc := None\<rparr>],
              mfa_backup_codes := [],
              trusted_devices := [demo_device\<lparr>d_revoked_at := Some 1000\<rparr>]\<rparr>"
  by (simp add: demo_db3_def demo_disable_with_code)

lemma demo_failed_attempt:
  "verifyMfaLogin demo_caps demo_ctx ''challenge-1'' ''zzzz-zzzz'' False demo_rq demo_db2 =
     (Inl InvalidCode, demo_db2)"
  by (simp add: demo_db2_eq demo_defs lookup_defs mfa_defs)

lemma demo_later_calls:
  "run_calls
     [LoginCall demo_caps (demo_ctx\<lparr>ulid1 := ''challenge-2''\<rparr>) ''ann@example.com''
        ''old-secret'' False demo_rq,
      RegenerateCall demo_ctx ''u1''] demo_db2 =
   demo_db2\<lparr>mfa_login_challenges :=
              [demo_challenge\<lparr>ml_consumed_at := Some 1000\<rparr>, demo_challenge\<lparr>ml_id := ''challenge-1''\<rparr>,
               \<lparr>ml_id = ''challenge-2'', ml_user_id = ''u1'', ml_remember = False,
                ml_user_agent = Some ''ua'', ml_ip = Some ''10.0.0.1'', ml_expires_at = 6000,
                ml_consumed_at = None\<rparr>],
            mfa_backup_codes :=
              [demo_backup\<lparr>bc_used_at := Some 1000\<rparr>,
               \<lparr>bc_id = 2, bc_user_id = ''u1'', bc_code_hash = ''b:WXYZ-2345'',
                bc_used_at = None\<rparr>]\<rparr>"
  by (simp add: demo_db2_eq demo_defs lookup_defs login_defs cookie_defs
        regenerateBackupCodes_def retire_backup_codes_def mint_backup_codes_def Let_def
        upt_rec)

theorem backup_code_single_use_witness:
  "is_tokens (fst (verifyMfaLogin demo_caps demo_ctx ''challenge-0'' ''abcd-efgh'' False demo_rq
                     demo_db)) \<and>
   verifyMfaLogin demo_caps (demo_ctx\<lparr>ulid1 := ''S2''\<rparr>) ''challenge-2'' ''ABCD-efgh '' True demo_rq
     (run_calls
        [LoginCall demo_caps (demo_ctx\<lparr>ulid1 := ''challenge-2''\<rparr>) ''ann@example.com''
           ''old-secret'' False demo_rq,
         RegenerateCall demo_ctx ''u1''] demo_db2) =
     (Inl InvalidCode,
      run_calls
        [LoginCall demo_caps (demo_ctx\<lparr>ulid1 := ''challenge-2''\<rparr>) ''ann@example.com''
           ''old-secret'' False demo_rq,
         RegenerateCall demo_ctx ''u1''] demo_db2) \<and>
   verifyMfaLogin demo_caps demo_ctx ''challenge-0'' ''abcd-efgh'' False demo_rq
     (run_calls [] demo_db3) = (Inl InvalidCode, run_calls [] demo_db3) \<and>
   snd (verifyMfaLogin demo_caps demo_ctx ''challenge-1'' ''zzzz-zzzz'' False demo_rq demo_db2) =
     demo_db2"
proof -
  have before: "is_tokens (fst (verifyMfaLogin demo_caps demo_ctx ''challenge-0'' ''abcd-efgh''
                                  False demo_rq demo_db))"
    by (simp add: demo_backup_login)
  have a: "verifyMfaLogin demo_caps demo_ctx ''challenge-0'' ''abcd-efgh'' False demo_rq demo_db =
             (Inr (AuthOutput ''access:u1'' \<lparr>ck_value = ''u1.S1'', ck_maxAge = Some 40000\<rparr> None
                     (user_dto_of demo_user True)), demo_db2) \<and>
           \<not> six_digits ''abcd-efgh'' \<and>
           find_challenge ''challenge-0'' demo_db = Some (demo_challenge, demo_user) \<and>
           length (unused_codes (ml_user_id demo_challenge)
                     (backupHash demo_caps (trim (toUpperCase ''abcd-efgh''))) demo_db) \<le> 1 \<and>
           \<not> remints (ml_user_id demo_challenge)
                (backupHash demo_caps (trim (toUpperCase ''abcd-efgh'')))
                [LoginCall demo_caps (demo_ctx\<lparr>ulid1 := ''challenge-2''\<rparr>) ''ann@example.com''
                   ''old-secret'' False demo_rq,
                 RegenerateCall demo_ctx ''u1''] \<and>
           trim (toUpperCase ''ABCD-efgh '') = trim (toUpperCase ''abcd-efgh'') \<and>
           \<not> six_digits ''ABCD-efgh '' \<and>
           find_challenge ''challenge-2''
             (run_calls
                [LoginCall demo_caps (demo_ctx\<lparr>ulid1 := ''challenge-2''\<rparr>) ''ann@example.com''
                   ''old-secret'' False demo_rq,
                 RegenerateCall demo_ctx ''u1''] demo_db2) =
             Some (\<lparr>ml_id = ''challenge-2'', ml_user_id = ''u1'', ml_remember = False,
                    ml_user_agent = Some ''ua'', ml_ip = Some ''10.0.0.1'', ml_expires_at = 6000,
                    ml_consumed_at = None\<rparr>, demo_user) \<and>
           ml_user_id \<lparr>ml_id = ''challenge-2'', ml_user_id = ''u1'', ml_remember = False,
                    ml_user_agent = Some ''ua'', ml_ip = Some ''10.0.0.1'', ml_expires_at = 6000,
                    ml_consumed_at = None\<rparr> = ml_user_id demo_challenge \<and>
           ml_consumed_at \<lparr>ml_id = ''challenge-2'', ml_user_id = ''u1'', ml_remember = False,
                    ml_user_agent = Some ''ua'', ml_ip = Some ''10.0.0.1'', ml_expires_at = 6000,
                    ml_consumed_at = None\<rparr> = None \<and>
           \<not> ml_expires_at \<lparr>ml_id = ''challenge-2'', ml_user_id = ''u1'', ml_remember = False,
                    ml_user_agent = Some ''ua'', ml_ip = Some ''10.0.0.1'', ml_expires_at = 6000,
                    ml_consumed_at = None\<rparr> < app_now (demo_ctx\<lparr>ulid1 := ''S2''\<rparr>) \<and>
           backupHmac demo_caps = backupHmac demo_caps"
    unfolding demo_later_calls
    by (simp add: demo_backup_login demo_db2_eq)
       (simp add: demo_defs lookup_defs six_digits_def is_digit_def unused_codes_def remints_def
          backupHash_def toUpperCase_def upper_char_def trim_def is_space_def char_of_def bit_0)
  have b: "disableMfa demo_caps demo_ctx ''u1'' ''old-secret'' ''abcd-efgh'' demo_db = (Inr (), demo_db3) \<and>
           \<not> six_digits ''abcd-efgh'' \<and>
           \<not> remints ''u1'' (backupHash demo_caps (trim (toUpperCase ''abcd-efgh''))) [] \<and>
           find_challenge ''challenge-0'' (run_calls [] demo_db3) =
             Some (demo_challenge, demo_user\<lparr>u_mfa_enabled := False, u_mfa_secret_enc := None\<rparr>) \<and>
           ml_user_id demo_challenge = ''u1'' \<and> ml_consumed_at demo_challenge = None \<and>
           \<not> ml_expires_at demo_challenge < app_now demo_ctx"
    by (simp add: demo_disable_with_code demo_db3_eq)
       (simp add: demo_defs lookup_defs six_digits_def is_digit_def remints_def)
  have c: "fst (verifyMfaLogin demo_caps demo_ctx ''challenge-1'' ''zzzz-zzzz'' False demo_rq demo_db2) =
             Inl InvalidCode"
    by (simp add: demo_failed_attempt)
  show ?thesis
    using before
      backup_code_single_use [THEN conjunct1, THEN mp, OF a]
      backup_code_single_use [THEN conjunct2, THEN conjunct1, THEN mp, OF b]
      backup_code_single_use [THEN conjunct2, THEN conjunct2, THEN mp, OF c]
    by blast
qed

text \<open>
  The claim as it was written fails where the code is held twice. With two unused rows
  of the same hash the code is accepted at one challenge and again at the next; and a
  spent code that the next batch holds again is accepted again.
\<close>

theorem repeated_backup_code_counterexample:
  "is_tokens (fst (verifyMfaLogin demo_caps demo_ctx ''challenge-0'' ''abcd-efgh'' False demo_rq
       (demo_db\<lparr>mfa_backup_codes := [demo_backup, demo_backup\<lparr>bc_id := 2\<rparr>]\<rparr>))) \<and>
   is_tokens (fst (verifyMfaLogin demo_caps (demo_ctx\<lparr>ulid1 := ''S2''\<rparr>) ''challenge-1''
       ''abcd-efgh'' False demo_rq
       (snd (verifyMfaLogin demo_caps demo_ctx ''challenge-0'' ''abcd-efgh'' False demo_rq
               (demo_db\<lparr>mfa_backup_codes := [demo_backup, demo_backup\<lparr>bc_id := 2\<rparr>]\<rparr>))))) \<and>
   is_tokens (fst (verifyMfaLogin demo_caps (demo_ctx\<lparr>ulid1 := ''S2''\<rparr>) ''challenge-1''
       ''abcd-efgh'' False demo_rq
       (snd (regenerateBackupCodes
               (demo_ctx\<lparr>gen_codes := [''ABCD-EFGH''], gen_hashes := [''b:ABCD-EFGH'']\<rparr>)
               ''u1'' demo_db2))))"
  by (simp add: demo_db2_eq demo_defs lookup_defs mfa_defs regenerateBackupCodes_def
        retire_backup_codes_def mint_backup_codes_def upt_rec)

text \<open>
  C5. \<open>verifyMfaLogin\<close> looks for the hash of the upper-cased, trimmed input only. With
  the backup code \<open>ABCD-EFGH\<close> stored, the input \<open>abcdefgh\<close> is turned away with
  \<open>InvalidCode\<close> at login, while \<open>disableMfa\<close> accepts the same input through the
  hyphenated spelling, and the login accepts \<open>abcd-efgh\<close>.
\<close>

theorem verifyMfaLogin_misses_hyphenated_form:
  "verifyMfaLogin demo_caps demo_ctx ''challenge-0'' ''abcdefgh'' False demo_rq demo_db =
     (Inl InvalidCode, demo_db) \<and>
   fst (disableMfa demo_caps demo_ctx ''u1'' ''old-secret'' ''abcdefgh'' demo_db) = Inr () \<and>
   is_tokens (fst (verifyMfaLogin demo_caps demo_ctx ''challenge-0'' ''abcd-efgh'' False demo_rq demo_db))"
proof -
  have "verifyMfaLogin demo_caps demo_ctx ''challenge-0'' ''abcdefgh'' False demo_rq demo_db =
     (Inl InvalidCode, demo_db)"
    by (simp add: demo_defs lookup_defs mfa_defs)
  then show ?thesis
    by (simp add: demo_disable_with_backup demo_backup_login)
qed

section \<open>The gate\<close>

lemma authenticate_mismatch:
  assumes "refresh_cookie rq = Some t" and "t \<noteq> []" and "verifyRefresh c t = Some (sid, sub)"
    and "find_session sid sub s = Some r" and "sha256 c t \<noteq> s_refresh_hash r"
  shows "authenticateViaRefreshCookie c w rq s =
           (Inr None, s\<lparr>sessions := revoke_session sid (db_now w) (sessions s)\<rparr>)"
  using assms by (simp add: authenticateViaRefreshCookie_def truthy_def or_empty_def Let_def)

lemma authenticate_otherwise:
  assumes "\<not> (\<exists>t sid sub r. refresh_cookie rq = Some t \<and> t \<noteq> [] \<and>
                verifyRefresh c t = Some (sid, sub) \<and> find_session sid sub s = Some r \<and>
                sha256 c t \<noteq> s_refresh_hash r)"
  shows "snd (authenticateViaRefreshCookie c w rq s) = s"
proof (cases "truthy (refresh_cookie rq)")
  case False
  then show ?thesis by (simp add: authenticateViaRefreshCookie_def)
next
  case True
  then obtain t where t: "refresh_cookie rq = Some t" "t \<noteq> []"
    by (cases "refresh_cookie rq") (auto simp: truthy_def)
  show ?thesis
  proof (cases "verifyRefresh c t")
    case None
    with t show ?thesis
      by (simp add: authenticateViaRefreshCookie_def truthy_def or_empty_def)
  next
    case (Some p)
    obtain sid sub where p: "p = (sid, sub)" by (cases p)
    show ?thesis
    proof (cases "find_session sid sub s")
      case None
      with t Some p show ?thesis
        by (simp add: authenticateViaRefreshCookie_def truthy_def or_empty_def Let_def)
    next
      case (Some r)
      with assms t \<open>verifyRefresh c t = Some p\<close> p have "sha256 c t = s_refresh_hash r"
        by blast
      with t Some \<open>verifyRefresh c t = Some p\<close> p show ?thesis
        by (simp add: authenticateViaRefreshCookie_def truthy_def or_empty_def Let_def
              split: option.splits)
    qed
  qed
qed

lemma requireAuth_fallback:
  assumes "take 7 (or_empty (authorization rq)) \<noteq> bearer_prefix"
  shows "snd (requireAuth c w rq s) = snd (authenticateViaRefreshCookie c w rq s)"
  using assms unfolding requireAuth_def
  by (auto simp: Let_def split: prod.splits sum.splits option.splits)

text \<open>
  C10. Without a bearer token the gate falls back to the refresh cookie. When the cookie
  decodes to a session row whose stored hash differs from the hash of the cookie, the
  gate sets \<open>revoked_at\<close> on that row and answers 401; in every other case it leaves the
  store as it was.
\<close>

theorem gate_fallback_revokes_on_mismatch:
  assumes "take 7 (or_empty (authorization rq)) \<noteq> bearer_prefix"
  shows
    "(refresh_cookie rq = Some t \<and> t \<noteq> [] \<and> verifyRefresh c t = Some (sid, sub) \<and>
        find_session sid sub s = Some r \<and> sha256 c t \<noteq> s_refresh_hash r \<longrightarrow>
          requireAuth c w rq s =
            (Status401 ''No token'', s\<lparr>sessions := revoke_session sid (db_now w) (sessions s)\<rparr>) \<and>
          find_session sid sub (snd (requireAuth c w rq s)) =
            Some (r\<lparr>s_revoked_at := Some (db_now w)\<rparr>)) \<and>
     (\<not> (\<exists>t sid sub r. refresh_cookie rq = Some t \<and> t \<noteq> [] \<and>
            verifyRefresh c t = Some (sid, sub) \<and> find_session sid sub s = Some r \<and>
            sha256 c t \<noteq> s_refresh_hash r) \<longrightarrow>
          snd (requireAuth c w rq s) = s)"
proof (intro conjI impI; (elim conjE)?)
  assume h: "refresh_cookie rq = Some t" "t \<noteq> []" "verifyRefresh c t = Some (sid, sub)"
    "find_session sid sub s = Some r" "sha256 c t \<noteq> s_refresh_hash r"
  note a = authenticate_mismatch [OF h, of w]
  show e: "requireAuth c w rq s =
      (Status401 ''No token'', s\<lparr>sessions := revoke_session sid (db_now w) (sessions s)\<rparr>)"
    using assms by (simp add: requireAuth_def a)
  have "s_id r = sid" using find_session_Some_id [OF h(4)] by simp
  then show "find_session sid sub (snd (requireAuth c w rq s)) =
      Some (r\<lparr>s_revoked_at := Some (db_now w)\<rparr>)"
    by (simp add: e find_session_revoke h(4))
next
  assume "\<not> (\<exists>t sid sub r. refresh_cookie rq = Some t \<and> t \<noteq> [] \<and>
            verifyRefresh c t = Some (sid, sub) \<and> find_session sid sub s = Some r \<and>
            sha256 c t \<noteq> s_refresh_hash r)"
  then have "snd (authenticateViaRefreshCookie c w rq s) = s"
    by (rule authenticate_otherwise)
  then show "snd (requireAuth c w rq s) = s"
    using requireAuth_fallback [OF assms] by simp
qed

theorem gate_fallback_revokes_on_mismatch_witness:
  "(requireAuth demo_caps demo_ctx demo_rq
      (demo_db\<lparr>sessions := [demo_session\<lparr>s_refresh_hash := ''h:other''\<rparr>]\<rparr>) =
      (Status401 ''No token'',
       demo_db\<lparr>sessions := [demo_session\<lparr>s_refresh_hash := ''h:other''\<rparr>]\<rparr>
         \<lparr>sessions := revoke_session ''S0'' (db_now demo_ctx)
            (sessions (demo_db\<lparr>sessions := [demo_session\<lparr>s_refresh_hash := ''h:other''\<rparr>]\<rparr>))\<rparr>) \<and>
    find_session ''S0'' ''u1''
      (snd (requireAuth demo_caps demo_ctx demo_rq
         (demo_db\<lparr>sessions := [demo_session\<lparr>s_refresh_hash := ''h:other''\<rparr>]\<rparr>))) =
      Some (demo_session\<lparr>s_refresh_hash := ''h:other''\<rparr>\<lparr>s_revoked_at := Some (db_now demo_ctx)\<rparr>)) \<and>
   snd (requireAuth demo_caps demo_ctx demo_rq
          (demo_db\<lparr>sessions := [demo_session\<lparr>s_revoked_at := Some 500\<rparr>]\<rparr>)) =
     demo_db\<lparr>sessions := [demo_session\<lparr>s_revoked_at := Some 500\<rparr>]\<rparr>"
proof -
  have nb: "take 7 (or_empty (authorization demo_rq)) \<noteq> bearer_prefix"
    by (simp add: demo_defs lookup_defs bearer_prefix_def)
  have p: "refresh_cookie demo_rq = Some ''u1.S0'' \<and> ''u1.S0'' \<noteq> [] \<and>
           verifyRefresh demo_caps ''u1.S0'' = Some (''S0'', ''u1'') \<and>
           find_session ''S0'' ''u1''
             (demo_db\<lparr>sessions := [demo_session\<lparr>s_refresh_hash := ''h:other''\<rparr>]\<rparr>) =
             Some (demo_session\<lparr>s_refresh_hash := ''h:other''\<rparr>) \<and>
           sha256 demo_caps ''u1.S0'' \<noteq> s_refresh_hash (demo_session\<lparr>s_refresh_hash := ''h:other''\<rparr>)"
    by (simp add: demo_defs lookup_defs)
  have q: "\<not> (\<exists>t sid sub r. refresh_cookie demo_rq = Some t \<and> t \<noteq> [] \<and>
            verifyRefresh demo_caps t = Some (sid, sub) \<and>
            find_session sid sub (demo_db\<lparr>sessions := [demo_session\<lparr>s_revoked_at := Some 500\<rparr>]\<rparr>) = Some r \<and>
            sha256 demo_caps t \<noteq> s_refresh_hash r)"
    by (auto simp add: demo_defs lookup_defs)
  show ?thesis
    using gate_fallback_revokes_on_mismatch [OF nb, THEN conjunct1, THEN mp, OF p]
      gate_fallback_revokes_on_mismatch [OF nb, THEN conjunct2, THEN mp, OF q]
    by blast
qed

end
